theory Spec2Isabelle
  imports
    Complex_Main
    "HOL-Library.Multiset"
    "HOL-Library.Sublist"
    "HOL-Library.Char_ord"
    "HOL-Library.List_Lexorder"
    "HOL-Library.Product_Lexorder"
    "HOL-Library.Word"
begin

section \<open>The cancer gene / MeSH pipeline: a shallow embedding\<close>

text \<open>
  The pipeline is a batch program over tables. Every table is modelled as the list of its
  rows, in row order, each row a record whose fields are the columns the code reads or
  writes. Every exception the modelled code can raise is a value of \<open>py_error\<close>, and a
  function that can raise returns \<open>py_error + 'a\<close> with \<open>Inl\<close> for the exception.
  Strings are lists of characters, a character standing for one code point below 256.
\<close>

datatype py_error = KeyError | FileNotFoundError | ZeroDivisionError | ValueError

subsection \<open>String primitives of the host language\<close>

text \<open>\<open>s.startswith(p)\<close>: the first \<open>len(p)\<close> characters of \<open>s\<close> are \<open>p\<close>.\<close>

definition startswith :: "string \<Rightarrow> string \<Rightarrow> bool" where
  "startswith s p = (take (length p) s = p)"

text \<open>
  \<open>c.isspace()\<close> on code points below 256: tab to carriage return, the four
  separators 28 to 31, the blank, NEL (133) and the no-break space (160).
\<close>

definition isspace :: "char \<Rightarrow> bool" where
  "isspace c =
     (let n = (of_char c :: nat)
      in (9 \<le> n \<and> n \<le> 13) \<or> (28 \<le> n \<and> n \<le> 32) \<or> n = 133 \<or> n = 160)"

text \<open>\<open>s.strip()\<close>: white space removed at both ends.\<close>

definition strip :: "string \<Rightarrow> string" where
  "strip s = rev (dropWhile isspace (rev (dropWhile isspace s)))"

text \<open>
  \<open>c.lower()\<close> on code points below 256: the capitals A to Z and the Latin-1 capitals
  192 to 222 (the multiplication sign 215 apart) move up by 32; every other one stays.
\<close>

definition lower_char :: "char \<Rightarrow> char" where
  "lower_char c =
     (let n = (of_char c :: nat)
      in if (65 \<le> n \<and> n \<le> 90) \<or> (192 \<le> n \<and> n \<le> 222 \<and> n \<noteq> 215)
         then char_of (n + 32) else c)"

definition lower :: "string \<Rightarrow> string" where
  "lower s = map lower_char s"

subsection \<open>Taxonomy parser (\<open>extract_mesh.parse_mesh_file\<close>)\<close>

text \<open>
  The parser's \<open>current\<close> is a dictionary with at most the keys \<open>UI\<close>, \<open>MH\<close> and
  \<open>MN\<close>; a key that is not in the dictionary is \<open>None\<close> here. It starts as the empty
  dictionary and is replaced by \<open>{'MN': []}\<close> at every \<open>*NEWRECORD\<close> line.
\<close>

record mesh_dict =
  UI :: "string option"
  MH :: "string option"
  MN :: "string list option"

definition empty_dict :: mesh_dict where
  "empty_dict = \<lparr>UI = None, MH = None, MN = None\<rparr>"

definition new_record :: mesh_dict where
  "new_record = \<lparr>UI = None, MH = None, MN = Some []\<rparr>"

text \<open>
  \<open>current.get('UI') and current.get('MN')\<close> as a truth value: both keys are there, the
  identifier is not the empty string and the list of tree numbers is not empty.
\<close>

definition has_ui_and_mn :: "mesh_dict \<Rightarrow> bool" where
  "has_ui_and_mn current =
     ((case UI current of None \<Rightarrow> False | Some u \<Rightarrow> u \<noteq> []) \<and>
      (case MN current of None \<Rightarrow> False | Some ts \<Rightarrow> ts \<noteq> []))"

definition flush :: "mesh_dict list \<Rightarrow> mesh_dict \<Rightarrow> mesh_dict list" where
  "flush records current = (if has_ui_and_mn current then records @ [current] else records)"

text \<open>
  One turn of the loop over the lines of the file. \<open>current['MN'].append(...)\<close> looks the
  key up first, and raises \<open>KeyError\<close> when the dictionary has no \<open>MN\<close>.
\<close>

definition parse_line ::
  "mesh_dict list \<times> mesh_dict \<Rightarrow> string \<Rightarrow> py_error + mesh_dict list \<times> mesh_dict" where
  "parse_line st raw =
     (let records = fst st; current = snd st; line = strip raw
      in if line = ''*NEWRECORD'' then Inr (flush records current, new_record)
         else if startswith line ''UI = '' then Inr (records, current\<lparr>UI := Some (drop 5 line)\<rparr>)
         else if startswith line ''MH = '' then Inr (records, current\<lparr>MH := Some (drop 5 line)\<rparr>)
         else if startswith line ''MN = '' then
           (case MN current of
              None \<Rightarrow> Inl KeyError
            | Some ts \<Rightarrow> Inr (records, current\<lparr>MN := Some (ts @ [drop 5 line])\<rparr>))
         else Inr (records, current))"

fun parse_lines ::
  "mesh_dict list \<times> mesh_dict \<Rightarrow> string list \<Rightarrow> py_error + mesh_dict list \<times> mesh_dict" where
  "parse_lines st [] = Inr st"
| "parse_lines st (raw # rest) =
     (case parse_line st raw of Inl e \<Rightarrow> Inl e | Inr st' \<Rightarrow> parse_lines st' rest)"

text \<open>The file is given as the list of its lines, as the loop \<open>for line in f\<close> sees them.\<close>

definition parse_mesh_file :: "string list \<Rightarrow> py_error + mesh_dict list" where
  "parse_mesh_file file_lines =
     (case parse_lines ([], empty_dict) file_lines of
        Inl e \<Rightarrow> Inl e
      | Inr st \<Rightarrow> Inr (flush (fst st) (snd st)))"

subsection \<open>Data frames of the table library\<close>

text \<open>
  \<open>pd.DataFrame(rows)\<close> of a list of dictionaries has the dictionaries' keys as its
  columns; of the empty list it has no column at all.
\<close>

definition DataFrame_columns :: "string list \<Rightarrow> 'r list \<Rightarrow> string list" where
  "DataFrame_columns keys rows = (if rows = [] then [] else keys)"

text \<open>
  \<open>df.sort_values(by)\<close> looks every name of \<open>by\<close> up among the columns and raises
  \<open>KeyError\<close> for one that is not there; otherwise the rows come back in ascending order
  of the key. The sort of a list of columns is stable. \<open>key\<close> reads the columns \<open>by\<close>
  off a row.
\<close>

definition sort_values ::
  "string list \<Rightarrow> string list \<Rightarrow> ('r \<Rightarrow> 'k::linorder) \<Rightarrow> 'r list \<Rightarrow> py_error + 'r list" where
  "sort_values columns by key rows =
     (if list_all (\<lambda>c. c \<in> set columns) by then Inr (sort_key key rows) else Inl KeyError)"

text \<open>
  \<open>df.sort_values(col, ascending=False)\<close> on a frame that has the column. The library
  promises no order among rows of equal key for a single column; the model keeps them in
  their order, and no property below depends on it.
\<close>

definition sort_values_desc :: "('r \<Rightarrow> 'k::linorder) \<Rightarrow> 'r list \<Rightarrow> 'r list" where
  "sort_values_desc key rows = rev (sort_key key (rev rows))"

text \<open>\<open>df.drop_duplicates(subset, keep='last')\<close>: of the rows of one key the last stays.\<close>

fun drop_duplicates_last :: "('r \<Rightarrow> 'k) \<Rightarrow> 'r list \<Rightarrow> 'r list" where
  "drop_duplicates_last key [] = []"
| "drop_duplicates_last key (r # rest) =
     (if key r \<in> set (map key rest) then drop_duplicates_last key rest
      else r # drop_duplicates_last key rest)"

text \<open>\<open>df.drop_duplicates(subset, keep='first')\<close>: of the rows of one key the first stays.\<close>

fun drop_duplicates_seen :: "('r \<Rightarrow> 'k) \<Rightarrow> 'k list \<Rightarrow> 'r list \<Rightarrow> 'r list" where
  "drop_duplicates_seen key seen [] = []"
| "drop_duplicates_seen key seen (r # rest) =
     (if key r \<in> set seen then drop_duplicates_seen key seen rest
      else r # drop_duplicates_seen key (key r # seen) rest)"

definition drop_duplicates_first :: "('r \<Rightarrow> 'k) \<Rightarrow> 'r list \<Rightarrow> 'r list" where
  "drop_duplicates_first key rows = drop_duplicates_seen key [] rows"

subsection \<open>Hierarchy extractor (\<open>extract_mesh.extract_c04_hierarchy\<close>)\<close>

record hierarchy_entry =
  mesh_id :: string
  mesh_name :: string
  tree_number :: string
  level :: int

definition hierarchy_columns :: "string list" where
  "hierarchy_columns = [''mesh_id'', ''mesh_name'', ''tree_number'', ''level'']"

text \<open>The inner loop, over the tree numbers of one record; \<open>rows.append\<close> adds at the end.\<close>

fun tree_num_loop ::
  "string \<Rightarrow> string \<Rightarrow> string \<Rightarrow> string list \<Rightarrow> hierarchy_entry list \<Rightarrow> hierarchy_entry list" where
  "tree_num_loop pfx mid mname [] rows = rows"
| "tree_num_loop pfx mid mname (tree_num # rest) rows =
     tree_num_loop pfx mid mname rest
       (if startswith tree_num pfx
        then rows @ [\<lparr>mesh_id = mid, mesh_name = mname, tree_number = tree_num,
                      level = int (count_list tree_num CHR ''.'') + 1\<rparr>]
        else rows)"

text \<open>
  The outer loop, over the records. \<open>rec['UI']\<close> and \<open>rec['MN']\<close> raise \<open>KeyError\<close> on
  a dictionary without the key; \<open>rec.get('MH', '')\<close> falls back to the empty string.
\<close>

fun records_loop ::
  "string \<Rightarrow> mesh_dict list \<Rightarrow> hierarchy_entry list \<Rightarrow> py_error + hierarchy_entry list" where
  "records_loop pfx [] rows = Inr rows"
| "records_loop pfx (r # rest) rows =
     (case UI r of
        None \<Rightarrow> Inl KeyError
      | Some mid \<Rightarrow>
          (case MN r of
             None \<Rightarrow> Inl KeyError
           | Some tree_nums \<Rightarrow>
               records_loop pfx rest
                 (tree_num_loop pfx mid (case MH r of None \<Rightarrow> [] | Some n \<Rightarrow> n) tree_nums rows)))"

definition extract_c04_hierarchy ::
  "mesh_dict list \<Rightarrow> string \<Rightarrow> py_error + hierarchy_entry list" where
  "extract_c04_hierarchy records pfx =
     (case records_loop pfx records [] of
        Inl e \<Rightarrow> Inl e
      | Inr rows \<Rightarrow>
          sort_values (DataFrame_columns hierarchy_columns rows) [''tree_number'', ''mesh_id'']
            (\<lambda>r. (tree_number r, mesh_id r)) rows)"

subsection \<open>Disease filter (\<open>extract_diseases\<close>)\<close>

text \<open>
  A row of the disease index. A list-valued cell that is null (\<open>None\<close>, or the
  floating-point missing value the table library puts there) is \<open>None\<close>; an entry of
  the reference list may itself be null.
\<close>

record disease_index_row =
  id_col :: string
  name_col :: string
  ancestors :: "string list option"
  dbXRefs :: "string option list option"

text \<open>
  The columns of the disease index that the pipeline reads. \<open>diseases[mask]\<close> keeps the
  rows at which a boolean mask holds, with every column; a mask that is not of boolean
  type is read as a list of column labels. \<open>Series.apply\<close> over a column makes a boolean
  mask when the column has an entry, and over a column of zero rows a mask of the
  \<open>object\<close> type with no entry, for which the selection has no column at all.
\<close>

definition disease_index_columns :: "string list" where
  "disease_index_columns = [''id'', ''name'', ''ancestors'', ''dbXRefs'']"

definition getitem_mask_columns :: "string list \<Rightarrow> bool list \<Rightarrow> string list" where
  "getitem_mask_columns columns mask_series = (if mask_series = [] then [] else columns)"

definition getitem_mask_rows :: "'a list \<Rightarrow> bool list \<Rightarrow> 'a list" where
  "getitem_mask_rows rows mask_series = map fst (filter snd (zip rows mask_series))"

definition has_neoplasm_ancestor :: "string \<Rightarrow> string list option \<Rightarrow> bool" where
  "has_neoplasm_ancestor cancer_ta anc =
     (case anc of None \<Rightarrow> False | Some a \<Rightarrow> cancer_ta \<in> set a)"

text \<open>
  \<open>filter_cancer_diseases\<close>: the lookup of the column \<open>id\<close> in the selection by the
  mask raises \<open>KeyError\<close> when the selection has no such column.
\<close>

definition filter_cancer_diseases ::
  "disease_index_row list \<Rightarrow> string \<Rightarrow> py_error + disease_index_row list" where
  "filter_cancer_diseases diseases cancer_ta =
     (let mask_series = map (\<lambda>d. has_neoplasm_ancestor cancer_ta (ancestors d)) diseases;
          filtered = getitem_mask_rows diseases mask_series;
          filtered_columns = getitem_mask_columns disease_index_columns mask_series
      in if ''id'' \<in> set filtered_columns
         then Inr (filter (\<lambda>d. id_col d \<noteq> cancer_ta) filtered)
         else Inl KeyError)"

record disease_record =
  diseaseId :: string
  diseaseName :: string
  meshIds :: "string list option"

text \<open>The loop of \<open>get_mesh_ids\<close>; \<open>if ref and ...\<close> skips a null and an empty reference.\<close>

fun xrefs_loop :: "string option list \<Rightarrow> string list \<Rightarrow> string list" where
  "xrefs_loop [] mesh_ids = mesh_ids"
| "xrefs_loop (ref # rest) mesh_ids =
     xrefs_loop rest
       (case ref of
          None \<Rightarrow> mesh_ids
        | Some r \<Rightarrow>
            if r \<noteq> [] \<and> startswith (lower r) ''mesh:'' then mesh_ids @ [drop 5 r]
            else mesh_ids)"

definition get_mesh_ids :: "string option list option \<Rightarrow> string list option" where
  "get_mesh_ids xrefs =
     (case xrefs of
        None \<Rightarrow> None
      | Some refs \<Rightarrow>
          (let mesh_ids = xrefs_loop refs [] in if mesh_ids = [] then None else Some mesh_ids))"

definition extract_mesh_ids :: "disease_index_row list \<Rightarrow> disease_record list" where
  "extract_mesh_ids diseases =
     map (\<lambda>d. \<lparr>diseaseId = id_col d, diseaseName = name_col d,
                meshIds = get_mesh_ids (dbXRefs d)\<rparr>) diseases"

subsection \<open>Artifacts of Step 1 and Step 2\<close>

text \<open>
  A path is the list of its components, \<open>p / name\<close> adds one at the end. The files of the
  run are a partial map from paths to the tables stored there.
\<close>

type_synonym path = "string list"

definition extract_diseases_output_path :: "path \<Rightarrow> path" where
  "extract_diseases_output_path processed_dir =
     (processed_dir @ [''intermediate'']) @ [''cancer_diseases_mesh_crosswalk.parquet'']"

text \<open>
  \<open>extract_diseases.run\<close> on a loaded disease index: the filtered, extracted table is
  written to the output path and returned. The result is the files after the run and
  what the run returned; a run that raises in the filter has written nothing.
\<close>

definition extract_diseases_run ::
  "(path \<rightharpoonup> disease_record list) \<Rightarrow> path \<Rightarrow> disease_index_row list \<Rightarrow> string
     \<Rightarrow> (path \<rightharpoonup> disease_record list) \<times> (py_error + disease_record list)" where
  "extract_diseases_run files processed_dir diseases cancer_ta =
     (case filter_cancer_diseases diseases cancer_ta of
        Inl e \<Rightarrow> (files, Inl e)
      | Inr cancer_diseases \<Rightarrow>
          (let result = extract_mesh_ids cancer_diseases
           in (files(extract_diseases_output_path processed_dir \<mapsto> result), Inr result)))"

definition load_cancer_diseases_path :: "path \<Rightarrow> path" where
  "load_cancer_diseases_path processed_dir =
     processed_dir @ [''cancer_diseases_mesh_crosswalk.parquet'']"

definition load_cancer_diseases ::
  "(path \<rightharpoonup> disease_record list) \<Rightarrow> path \<Rightarrow> py_error + disease_record list" where
  "load_cancer_diseases files processed_dir =
     (case files (load_cancer_diseases_path processed_dir) of
        None \<Rightarrow> Inl FileNotFoundError
      | Some table \<Rightarrow> Inr table)"

subsection \<open>Crosswalk builder (\<open>build_crosswalk.build_disease_mesh_crosswalk\<close>)\<close>

text \<open>A dictionary appended to \<open>rows\<close> by the fan-out loops.\<close>

record disease_mesh_pair =
  p_diseaseId :: string
  p_diseaseName :: string
  p_meshId :: string

text \<open>
  A row of the crosswalk after the join with the hierarchy table, whose column
  \<open>mesh_id\<close> is renamed to \<open>meshId\<close> for the join; the fields carry the prefix \<open>cw_\<close>.
\<close>

record crosswalk_row =
  cw_diseaseId :: string
  cw_diseaseName :: string
  cw_meshId :: string
  cw_mesh_name :: string
  cw_tree_number :: string
  cw_level :: int

fun mesh_ids_loop ::
  "disease_record \<Rightarrow> string list \<Rightarrow> disease_mesh_pair list \<Rightarrow> disease_mesh_pair list" where
  "mesh_ids_loop row [] rows = rows"
| "mesh_ids_loop row (m # rest) rows =
     mesh_ids_loop row rest
       (rows @ [\<lparr>p_diseaseId = diseaseId row, p_diseaseName = diseaseName row, p_meshId = m\<rparr>])"

text \<open>
  The loop over \<open>with_mesh.iterrows()\<close>. The rows it runs over have passed the
  \<open>notna\<close> filter, so the \<open>None\<close> branch is never taken.
\<close>

fun iterrows_loop :: "disease_record list \<Rightarrow> disease_mesh_pair list \<Rightarrow> disease_mesh_pair list" where
  "iterrows_loop [] rows = rows"
| "iterrows_loop (row # rest) rows =
     iterrows_loop rest
       (mesh_ids_loop row (case meshIds row of None \<Rightarrow> [] | Some ids \<Rightarrow> ids) rows)"

text \<open>
  The inner join on \<open>meshId\<close>: every pair of a left row and a right row of equal key, in
  the order of the left rows.
\<close>

definition merge_hierarchy ::
  "disease_mesh_pair list \<Rightarrow> hierarchy_entry list \<Rightarrow> crosswalk_row list" where
  "merge_hierarchy crosswalk mesh_hierarchy =
     concat (map (\<lambda>p. map (\<lambda>h. \<lparr>cw_diseaseId = p_diseaseId p, cw_diseaseName = p_diseaseName p,
                                   cw_meshId = p_meshId p, cw_mesh_name = mesh_name h,
                                   cw_tree_number = tree_number h, cw_level = level h\<rparr>)
                        (filter (\<lambda>h. mesh_id h = p_meshId p) mesh_hierarchy)) crosswalk)"

text \<open>
  The join looks the column \<open>meshId\<close> up in the frame built from \<open>rows\<close>, and raises
  \<open>KeyError\<close> when that frame has no column. The hierarchy table is a frame with its four
  columns.
\<close>

definition build_disease_mesh_crosswalk ::
  "disease_record list \<Rightarrow> hierarchy_entry list \<Rightarrow> py_error + crosswalk_row list" where
  "build_disease_mesh_crosswalk cancer_diseases mesh_hierarchy =
     (let with_mesh = filter (\<lambda>d. meshIds d \<noteq> None) cancer_diseases;
          rows = iterrows_loop with_mesh []
      in if ''meshId'' \<in> set (DataFrame_columns [''diseaseId'', ''diseaseName'', ''meshId''] rows)
         then
           (let crosswalk = merge_hierarchy rows mesh_hierarchy;
                crosswalk = sort_values_desc cw_level crosswalk;
                crosswalk = drop_duplicates_last (\<lambda>r. (cw_diseaseId r, cw_meshId r)) crosswalk
            in Inr (sort_key (\<lambda>r. (cw_diseaseId r, cw_level r)) crosswalk))
         else Inl KeyError)"

subsection \<open>Association aggregator (\<open>build_crosswalk.build_final_dataset\<close>)\<close>

text \<open>
  Scores are real numbers. The column of evidence counts is a column of signed 64-bit
  integers (\<open>int64\<close>): a count is a 64-bit word, read as an integer by \<open>sint\<close>, and
  the sum over a group is the sum of the column type, which wraps around modulo \<open>2^64\<close>.
  The missing value of a score is outside the model.
\<close>

type_synonym int64 = "64 word"

record association =
  a_diseaseId :: string
  a_targetId :: string
  a_score :: real
  a_evidenceCount :: int64

record joined_row =
  j_diseaseId :: string
  j_targetId :: string
  j_score :: real
  j_evidenceCount :: int64
  j_meshId :: string

record gene_mesh_row =
  targetId :: string
  meshId :: string
  score :: real
  evidenceCount :: int64

definition merge_crosswalk :: "association list \<Rightarrow> crosswalk_row list \<Rightarrow> joined_row list" where
  "merge_crosswalk cancer_assoc crosswalk =
     concat (map (\<lambda>a. map (\<lambda>c. \<lparr>j_diseaseId = a_diseaseId a, j_targetId = a_targetId a,
                                   j_score = a_score a, j_evidenceCount = a_evidenceCount a,
                                   j_meshId = cw_meshId c\<rparr>)
                        (filter (\<lambda>c. cw_diseaseId c = a_diseaseId a) crosswalk)) cancer_assoc)"

text \<open>
  \<open>groupby([targetId, meshId]).agg(score: max, evidenceCount: sum).reset_index()\<close>: one
  row for every key that occurs, in ascending order of the keys.
\<close>

definition groupby_agg :: "joined_row list \<Rightarrow> gene_mesh_row list" where
  "groupby_agg joined =
     map (\<lambda>k. let grp = filter (\<lambda>j. (j_targetId j, j_meshId j) = k) joined
              in \<lparr>targetId = fst k, meshId = snd k,
                  score = Max (set (map j_score grp)),
                  evidenceCount = sum_list (map j_evidenceCount grp)\<rparr>)
       (sort (remdups (map (\<lambda>j. (j_targetId j, j_meshId j)) joined)))"

definition build_final_dataset ::
  "association list \<Rightarrow> disease_record list \<Rightarrow> crosswalk_row list \<Rightarrow> gene_mesh_row list" where
  "build_final_dataset associations cancer_diseases crosswalk =
     (let disease_ids = set (map cw_diseaseId crosswalk);
          cancer_assoc = filter (\<lambda>a. a_diseaseId a \<in> disease_ids) associations;
          joined = merge_crosswalk cancer_assoc crosswalk
      in groupby_agg joined)"

subsection \<open>Identifier remapper (\<open>add_entrez\<close>)\<close>

text \<open>A row of the gene2ensembl file, every column read as a string.\<close>

record gene2ensembl_row =
  tax_id :: string
  GeneID :: string
  Ensembl_gene_identifier :: string

record entrez_map_row =
  entrezGeneId :: string
  ensemblGeneId :: string

definition HUMAN_TAX_ID :: string where
  "HUMAN_TAX_ID = ''9606''"

definition load_gene2ensembl :: "gene2ensembl_row list \<Rightarrow> string \<Rightarrow> entrez_map_row list" where
  "load_gene2ensembl file_rows tax =
     (let df = filter (\<lambda>r. tax_id r = tax) file_rows;
          gene_mapping =
            drop_duplicates_first (\<lambda>m. (entrezGeneId m, ensemblGeneId m))
              (map (\<lambda>r. \<lparr>entrezGeneId = GeneID r, ensemblGeneId = Ensembl_gene_identifier r\<rparr>) df)
      in drop_duplicates_first ensemblGeneId gene_mapping)"

text \<open>
  The gene-term table after the left join: a row without a partner keeps a null in the
  new column.
\<close>

record merged_row =
  m_meshId :: string
  m_targetId :: string
  m_score :: real
  m_evidenceCount :: int64
  m_entrezGeneId :: "string option"

definition merge_left :: "gene_mesh_row list \<Rightarrow> entrez_map_row list \<Rightarrow> merged_row list" where
  "merge_left df entrez_map =
     concat (map (\<lambda>r. let with_entrez = (\<lambda>e. \<lparr>m_meshId = meshId r, m_targetId = targetId r,
                                                m_score = score r,
                                                m_evidenceCount = evidenceCount r,
                                                m_entrezGeneId = e\<rparr>)
                      in case filter (\<lambda>m. ensemblGeneId m = targetId r) entrez_map of
                           [] \<Rightarrow> [with_entrez None]
                         | ms \<Rightarrow> map (\<lambda>m. with_entrez (Some (entrezGeneId m))) ms) df)"

text \<open>
  \<open>astype(int)\<close> on the column of target identifiers. The conversion of one string is the
  parameter \<open>to_int\<close>, \<open>None\<close> where the library raises \<open>ValueError\<close>.
\<close>

fun astype_int :: "(string \<Rightarrow> int option) \<Rightarrow> string option list \<Rightarrow> py_error + int list" where
  "astype_int to_int [] = Inr []"
| "astype_int to_int (v # vs) =
     (case v of
        None \<Rightarrow> Inl ValueError
      | Some s \<Rightarrow>
          (case to_int s of
             None \<Rightarrow> Inl ValueError
           | Some n \<Rightarrow>
               (case astype_int to_int vs of Inl e \<Rightarrow> Inl e | Inr ns \<Rightarrow> Inr (n # ns))))"

record final_row =
  disease_mesh_id :: string
  gene_entrez_id :: int
  ot_score :: real
  evidence_count :: int64

text \<open>
  \<open>add_entrez.run\<close> on the loaded gene-term table and the rows of the gene2ensembl file.
  With \<open>verbose\<close> the retained share \<open>len(df)/before\<close> is printed, a division by zero
  when the joined table is empty.
\<close>

definition run_add_entrez ::
  "(string \<Rightarrow> int option) \<Rightarrow> bool \<Rightarrow> gene_mesh_row list \<Rightarrow> gene2ensembl_row list
     \<Rightarrow> py_error + final_row list" where
  "run_add_entrez to_int verbose df file_rows =
     (let entrez_map = load_gene2ensembl file_rows HUMAN_TAX_ID;
          merged = merge_left df entrez_map;
          before = length merged;
          kept = filter (\<lambda>m. m_entrezGeneId m \<noteq> None) merged
      in if verbose \<and> before = 0 then Inl ZeroDivisionError
         else
           (case astype_int to_int (map m_entrezGeneId kept) of
              Inl e \<Rightarrow> Inl e
            | Inr ns \<Rightarrow>
                Inr (sort_values_desc ot_score
                       (map (\<lambda>(m, n). \<lparr>disease_mesh_id = m_meshId m, gene_entrez_id = n,
                                        ot_score = m_score m,
                                        evidence_count = m_evidenceCount m\<rparr>)
                          (zip kept ns)))))"

text \<open>
  The conversion of a string of decimal digits, for the evaluations below:
  \<open>int('7157') = 7157\<close>.
\<close>

fun digits_value :: "string \<Rightarrow> nat \<Rightarrow> nat option" where
  "digits_value [] acc = Some acc"
| "digits_value (c # cs) acc =
     (let n = (of_char c :: nat)
      in if 48 \<le> n \<and> n \<le> 57 then digits_value cs (10 * acc + (n - 48)) else None)"

definition int_of_digits :: "string \<Rightarrow> int option" where
  "int_of_digits s = (if s = [] then None else map_option int (digits_value s 0))"

subsection \<open>Specification-level notions\<close>

text \<open>
  The hierarchy entries of one taxonomy record for a prefix, in the words of the
  specification: one entry per tree path that has the prefix as a string prefix, its level
  the number of dots plus one.
\<close>

definition entries_of_record :: "string \<Rightarrow> mesh_dict \<Rightarrow> hierarchy_entry list" where
  "entries_of_record pfx r =
     (case UI r of
        None \<Rightarrow> []
      | Some mid \<Rightarrow>
          (case MN r of
             None \<Rightarrow> []
           | Some tree_nums \<Rightarrow>
               map (\<lambda>t. \<lparr>mesh_id = mid, mesh_name = (case MH r of None \<Rightarrow> [] | Some n \<Rightarrow> n),
                          tree_number = t, level = int (count_list t CHR ''.'') + 1\<rparr>)
                 (filter (prefix pfx) tree_nums)))"

text \<open>
  Cross-reference extraction in the words of the specification: a reference matches a
  tag when its first characters equal the tag up to case; the matching references lose
  the tag and keep their order; no match, or no list, is the absent value.
\<close>

definition matches_prefix_ci :: "string \<Rightarrow> string \<Rightarrow> bool" where
  "matches_prefix_ci tag ref = (lower (take (length tag) ref) = lower tag)"

definition cross_refs :: "string \<Rightarrow> string option list option \<Rightarrow> string list option" where
  "cross_refs tag xrefs =
     (case xrefs of
        None \<Rightarrow> None
      | Some refs \<Rightarrow>
          (let ids = map (drop (length tag))
                       (filter (matches_prefix_ci tag)
                          (concat (map (\<lambda>ref. case ref of None \<Rightarrow> [] | Some r \<Rightarrow> [r]) refs)))
           in if ids = [] then None else Some ids))"

text \<open>
  The disease-term pairs of the crosswalk in the words of the specification: every
  disease with a list of cross-reference identifiers fans out into one pair for each
  identifier, and a pair stays when its term has an entry in the hierarchy table.
\<close>

definition disease_term_pairs ::
  "disease_record list \<Rightarrow> hierarchy_entry list \<Rightarrow> (string \<times> string) list" where
  "disease_term_pairs cancer_diseases mesh_hierarchy =
     concat (map (\<lambda>d. map (\<lambda>m. (diseaseId d, m))
                        (filter (\<lambda>m. m \<in> set (map mesh_id mesh_hierarchy))
                           (case meshIds d of None \<Rightarrow> [] | Some ids \<Rightarrow> ids)))
               cancer_diseases)"

text \<open>
  The rows that contribute to the pair of a gene and a term: an association row of that
  gene, once for every disease-term pair that links its disease to the term.
\<close>

definition contributing ::
  "association list \<Rightarrow> crosswalk_row list \<Rightarrow> string \<Rightarrow> string \<Rightarrow> association list" where
  "contributing associations crosswalk gene term =
     concat (map (\<lambda>a. map (\<lambda>c. a)
                        (filter (\<lambda>c. cw_diseaseId c = a_diseaseId a \<and> cw_meshId c = term) crosswalk))
               (filter (\<lambda>a. a_targetId a = gene) associations))"

text \<open>
  The sum of evidence counts in the words of the specification: the counts of the rows
  read as integers and added up as integers, and the range of a signed 64-bit integer.
\<close>

definition total_evidence :: "association list \<Rightarrow> int" where
  "total_evidence rows = sum_list (map (\<lambda>a. sint (a_evidenceCount a)) rows)"

definition int64_range :: "int \<Rightarrow> bool" where
  "int64_range n = (- (2 ^ 63) \<le> n \<and> n < 2 ^ 63)"

text \<open>
  The namespace crosswalk as a lookup: the target identifier of the first row for a
  source identifier, whether a row of the gene-term table has an entry, the integer the
  target identifier converts to, and the final row made from a row and that integer.
\<close>

definition entrez_of :: "entrez_map_row list \<Rightarrow> string \<Rightarrow> string option" where
  "entrez_of entrez_map g =
     map_option entrezGeneId (find (\<lambda>m. ensemblGeneId m = g) entrez_map)"

definition has_entry :: "entrez_map_row list \<Rightarrow> gene_mesh_row \<Rightarrow> bool" where
  "has_entry entrez_map r = (targetId r \<in> set (map ensemblGeneId entrez_map))"

definition target_id :: "(string \<Rightarrow> int option) \<Rightarrow> entrez_map_row list \<Rightarrow> string \<Rightarrow> int option" where
  "target_id to_int entrez_map g = Option.bind (entrez_of entrez_map g) to_int"

definition final_of :: "gene_mesh_row \<Rightarrow> int \<Rightarrow> final_row" where
  "final_of r n = \<lparr>disease_mesh_id = meshId r, gene_entrez_id = n, ot_score = score r,
                   evidence_count = evidenceCount r\<rparr>"

section \<open>Properties\<close>

subsection \<open>String primitives\<close>

lemma startswith_iff_prefix: "startswith s p \<longleftrightarrow> prefix p s"
  unfolding startswith_def prefix_def
  by (metis append_eq_conv_conj append_take_drop_id)

subsection \<open>Taxonomy parser\<close>

text \<open>
  The flush after the loop: whatever the lines were, when the loop ends without an
  exception and the record in progress has an identifier and a tree number, that record is
  the last one of the result.
\<close>

lemma parse_mesh_file_flushes_last:
  assumes "parse_lines ([], empty_dict) file_lines = Inr (records, current)"
    and "has_ui_and_mn current"
  shows "parse_mesh_file file_lines = Inr (records @ [current])"
  using assms by (simp add: parse_mesh_file_def flush_def)

lemma parse_mesh_file_one_record_after_marker:
  "parse_mesh_file
     [''*NEWRECORD'', ''UI = D000001'', ''MH = Calcimycin'', ''MN = D03.633.100.221.173'']
     = Inr [\<lparr>UI = Some ''D000001'', MH = Some ''Calcimycin'',
             MN = Some [''D03.633.100.221.173'']\<rparr>]"
  by (simp add: parse_mesh_file_def parse_line_def strip_def isspace_def startswith_def
      empty_dict_def new_record_def flush_def has_ui_and_mn_def)

text \<open>
  Every record the parser returns has an identifier and a list of tree numbers.
\<close>

lemma parse_line_complete:
  assumes "parse_line st raw = Inr st'" and "list_all has_ui_and_mn (fst st)"
  shows "list_all has_ui_and_mn (fst st')"
  using assms
  by (auto simp: parse_line_def flush_def Let_def split: if_splits option.splits)

lemma parse_lines_complete:
  assumes "parse_lines st file_lines = Inr st'" and "list_all has_ui_and_mn (fst st)"
  shows "list_all has_ui_and_mn (fst st')"
  using assms
proof (induction file_lines arbitrary: st)
  case Nil
  then show ?case by simp
next
  case (Cons raw rest)
  from Cons.prems(1) obtain st1 where 1: "parse_line st raw = Inr st1"
    and 2: "parse_lines st1 rest = Inr st'"
    by (auto split: sum.splits)
  from Cons.IH[OF 2 parse_line_complete[OF 1 Cons.prems(2)]] show ?case .
qed

lemma parse_mesh_file_complete:
  assumes "parse_mesh_file file_lines = Inr records"
  shows "list_all (\<lambda>r. UI r \<noteq> None \<and> MN r \<noteq> None) records"
proof -
  from assms obtain st where p: "parse_lines ([], empty_dict) file_lines = Inr st"
    and r: "records = flush (fst st) (snd st)"
    by (auto simp: parse_mesh_file_def split: sum.splits)
  from parse_lines_complete[OF p] have "list_all has_ui_and_mn (fst st)" by simp
  with r have "list_all has_ui_and_mn records"
    by (simp add: flush_def)
  then show ?thesis
    by (auto simp: list_all_iff has_ui_and_mn_def split: option.splits)
qed

text \<open>
  A file without any marker line never gets a list of tree numbers to append to: as soon
  as it has a tree-number line, the parser raises \<open>KeyError\<close>.
\<close>

lemma startswith_MN_only:
  assumes "startswith l ''MN = ''"
  shows "\<not> startswith l ''UI = '' \<and> \<not> startswith l ''MH = '' \<and> l \<noteq> ''*NEWRECORD''"
  using assms by (auto simp: startswith_def)

lemma parse_line_MN_without_list:
  assumes "MN (snd st) = None" and "startswith (strip raw) ''MN = ''"
  shows "parse_line st raw = Inl KeyError"
  using assms startswith_MN_only[OF assms(2)] by (simp add: parse_line_def Let_def)

lemma parse_line_keeps_no_list:
  assumes "MN (snd st) = None" and "strip raw \<noteq> ''*NEWRECORD''"
    and "\<not> startswith (strip raw) ''MN = ''"
  shows "\<exists>st'. parse_line st raw = Inr st' \<and> MN (snd st') = None"
  using assms by (cases st) (simp add: parse_line_def Let_def)

lemma parse_lines_no_marker:
  assumes "MN (snd st) = None"
    and "list_all (\<lambda>raw. strip raw \<noteq> ''*NEWRECORD'') file_lines"
    and "list_ex (\<lambda>raw. startswith (strip raw) ''MN = '') file_lines"
  shows "parse_lines st file_lines = Inl KeyError"
  using assms
proof (induction file_lines arbitrary: st)
  case Nil
  then show ?case by simp
next
  case (Cons raw rest)
  show ?case
  proof (cases "startswith (strip raw) ''MN = ''")
    case True
    from parse_line_MN_without_list[OF Cons.prems(1) True] show ?thesis by simp
  next
    case False
    from Cons.prems(2) have nm: "strip raw \<noteq> ''*NEWRECORD''"
      and rest_nm: "list_all (\<lambda>raw. strip raw \<noteq> ''*NEWRECORD'') rest"
      by simp_all
    from parse_line_keeps_no_list[OF Cons.prems(1) nm False]
    obtain st1 where 1: "parse_line st raw = Inr st1" and 2: "MN (snd st1) = None"
      by blast
    from Cons.prems(3) False have "list_ex (\<lambda>raw. startswith (strip raw) ''MN = '') rest"
      by simp
    from Cons.IH[OF 2 rest_nm this] 1 show ?thesis by simp
  qed
qed

lemma parse_mesh_file_no_marker:
  assumes "list_all (\<lambda>raw. strip raw \<noteq> ''*NEWRECORD'') file_lines"
    and "list_ex (\<lambda>raw. startswith (strip raw) ''MN = '') file_lines"
  shows "parse_mesh_file file_lines = Inl KeyError"
proof -
  have "MN (snd ([], empty_dict)) = None" by (simp add: empty_dict_def)
  from parse_lines_no_marker[OF this assms] show ?thesis
    by (simp add: parse_mesh_file_def)
qed

text \<open>
  C2 (evaluation of the parser on a file without any marker line). A file that holds one
  record with an identifier, a name and a tree number, and no \<open>*NEWRECORD\<close> line at all,
  is not parsed into that record: the tree-number line is reached while \<open>current\<close> is
  still the empty dictionary, and the parser stops with \<open>KeyError\<close>.
\<close>

theorem parse_mesh_file_no_marker_raises:
  "parse_mesh_file [''UI = D000001'', ''MH = Calcimycin'', ''MN = D03.633.100.221.173'']
     = Inl KeyError"
  by (simp add: parse_mesh_file_def parse_line_def strip_def isspace_def startswith_def
      empty_dict_def)

subsection \<open>Hierarchy extractor\<close>

lemma tree_num_loop_eq:
  "tree_num_loop pfx mid mname ts rows =
     rows @ map (\<lambda>t. \<lparr>mesh_id = mid, mesh_name = mname, tree_number = t,
                       level = int (count_list t CHR ''.'') + 1\<rparr>) (filter (prefix pfx) ts)"
  by (induction ts arbitrary: rows) (simp_all add: startswith_iff_prefix)

lemma records_loop_Inr:
  "records_loop pfx records rows = Inr out \<Longrightarrow>
     out = rows @ concat (map (entries_of_record pfx) records)"
proof (induction records arbitrary: rows)
  case Nil
  then show ?case by simp
next
  case (Cons r records)
  from Cons.prems obtain mid ts where u: "UI r = Some mid" and m: "MN r = Some ts"
    and rest: "records_loop pfx records
                 (tree_num_loop pfx mid (case MH r of None \<Rightarrow> [] | Some n \<Rightarrow> n) ts rows) = Inr out"
    by (auto split: option.splits)
  have "entries_of_record pfx r =
          map (\<lambda>t. \<lparr>mesh_id = mid, mesh_name = (case MH r of None \<Rightarrow> [] | Some n \<Rightarrow> n),
                     tree_number = t, level = int (count_list t CHR ''.'') + 1\<rparr>)
            (filter (prefix pfx) ts)"
    by (simp add: entries_of_record_def u m)
  with Cons.IH[OF rest] show ?case
    by (simp add: tree_num_loop_eq)
qed

lemma records_loop_total:
  "list_all (\<lambda>r. UI r \<noteq> None \<and> MN r \<noteq> None) records \<Longrightarrow>
     \<exists>out. records_loop pfx records rows = Inr out"
  by (induction records arbitrary: rows) (auto split: option.splits)

lemma sort_values_hierarchy:
  "sort_values (DataFrame_columns hierarchy_columns rows) [''tree_number'', ''mesh_id''] key rows =
     (if rows = [] then Inl KeyError else Inr (sort_key key rows))"
  by (simp add: sort_values_def DataFrame_columns_def hierarchy_columns_def)

text \<open>
  On records that have their identifier and their list of tree numbers (every record the
  parser returns has), the extractor returns a table exactly when some tree path has the
  prefix, and raises \<open>KeyError\<close> otherwise.
\<close>

lemma extract_c04_hierarchy_returns:
  assumes "list_all (\<lambda>r. UI r \<noteq> None \<and> MN r \<noteq> None) records"
  shows "extract_c04_hierarchy records pfx =
           (if concat (map (entries_of_record pfx) records) = [] then Inl KeyError
            else Inr (sort_key (\<lambda>r. (tree_number r, mesh_id r))
                        (concat (map (entries_of_record pfx) records))))"
proof -
  from records_loop_total[OF assms] obtain rows where r: "records_loop pfx records [] = Inr rows"
    by blast
  from records_loop_Inr[OF r] have "rows = concat (map (entries_of_record pfx) records)" by simp
  with r show ?thesis
    by (simp add: extract_c04_hierarchy_def sort_values_hierarchy)
qed

text \<open>
  C6. Whenever the hierarchy extractor returns a table, its rows are, up to their order,
  exactly one row for every record and every tree path of the record that has the prefix
  as a plain string prefix, with the level the number of dots of the path plus one; the
  table is in ascending order of tree path and identifier. It does return a table when
  every record has its identifier and its list of tree numbers and at least one tree
  path has the prefix.
\<close>

theorem extract_c04_hierarchy_rows:
  "(\<forall>out. extract_c04_hierarchy records pfx = Inr out \<longrightarrow>
      mset out = mset (concat (map (entries_of_record pfx) records)) \<and>
      sorted (map (\<lambda>r. (tree_number r, mesh_id r)) out)) \<and>
   (list_all (\<lambda>r. UI r \<noteq> None \<and> MN r \<noteq> None) records \<and>
    concat (map (entries_of_record pfx) records) \<noteq> [] \<longrightarrow>
      (\<exists>out. extract_c04_hierarchy records pfx = Inr out))"
proof (intro conjI allI impI)
  fix out
  assume a: "extract_c04_hierarchy records pfx = Inr out"
  then obtain rows where r: "records_loop pfx records [] = Inr rows"
    and s: "sort_values (DataFrame_columns hierarchy_columns rows) [''tree_number'', ''mesh_id'']
              (\<lambda>r. (tree_number r, mesh_id r)) rows = Inr out"
    by (auto simp: extract_c04_hierarchy_def split: sum.splits)
  from s have out: "out = sort_key (\<lambda>r. (tree_number r, mesh_id r)) rows"
    by (simp add: sort_values_hierarchy split: if_splits)
  from records_loop_Inr[OF r] have rows: "rows = concat (map (entries_of_record pfx) records)"
    by simp
  from out rows show "mset out = mset (concat (map (entries_of_record pfx) records))" by simp
  from out show "sorted (map (\<lambda>r. (tree_number r, mesh_id r)) out)" by simp
next
  assume "list_all (\<lambda>r. UI r \<noteq> None \<and> MN r \<noteq> None) records \<and>
          concat (map (entries_of_record pfx) records) \<noteq> []"
  then show "\<exists>out. extract_c04_hierarchy records pfx = Inr out"
    by (simp add: extract_c04_hierarchy_returns)
qed

lemma extract_c04_hierarchy_example:
  "extract_c04_hierarchy
     [\<lparr>UI = Some ''D2'', MH = Some ''B'', MN = Some [''C04.588.1'', ''C040'', ''C05.1'']\<rparr>,
      \<lparr>UI = Some ''D1'', MH = None, MN = Some [''C04'']\<rparr>] ''C04''
   = Inr [\<lparr>mesh_id = ''D1'', mesh_name = [], tree_number = ''C04'', level = 1\<rparr>,
          \<lparr>mesh_id = ''D2'', mesh_name = ''B'', tree_number = ''C04.588.1'', level = 3\<rparr>,
          \<lparr>mesh_id = ''D2'', mesh_name = ''B'', tree_number = ''C040'', level = 1\<rparr>]"
  by (simp add: extract_c04_hierarchy_def sort_values_def DataFrame_columns_def startswith_def
      hierarchy_columns_def less_eq_char_def less_char_def)

theorem extract_c04_hierarchy_rows_witness:
  "extract_c04_hierarchy
     [\<lparr>UI = Some ''D2'', MH = Some ''B'', MN = Some [''C04.588.1'', ''C040'', ''C05.1'']\<rparr>,
      \<lparr>UI = Some ''D1'', MH = None, MN = Some [''C04'']\<rparr>] ''C04''
   = Inr [\<lparr>mesh_id = ''D1'', mesh_name = [], tree_number = ''C04'', level = 1\<rparr>,
          \<lparr>mesh_id = ''D2'', mesh_name = ''B'', tree_number = ''C04.588.1'', level = 3\<rparr>,
          \<lparr>mesh_id = ''D2'', mesh_name = ''B'', tree_number = ''C040'', level = 1\<rparr>] \<and>
   mset [\<lparr>mesh_id = ''D1'', mesh_name = [], tree_number = ''C04'', level = 1\<rparr>,
         \<lparr>mesh_id = ''D2'', mesh_name = ''B'', tree_number = ''C04.588.1'', level = 3\<rparr>,
         \<lparr>mesh_id = ''D2'', mesh_name = ''B'', tree_number = ''C040'', level = 1\<rparr>]
   = mset (concat (map (entries_of_record ''C04'')
       [\<lparr>UI = Some ''D2'', MH = Some ''B'', MN = Some [''C04.588.1'', ''C040'', ''C05.1'']\<rparr>,
        \<lparr>UI = Some ''D1'', MH = None, MN = Some [''C04'']\<rparr>]))"
  using extract_c04_hierarchy_rows[of
       "[\<lparr>UI = Some ''D2'', MH = Some ''B'', MN = Some [''C04.588.1'', ''C040'', ''C05.1'']\<rparr>,
        \<lparr>UI = Some ''D1'', MH = None, MN = Some [''C04'']\<rparr>]" "''C04''"]
    extract_c04_hierarchy_example
  by blast

text \<open>
  C10 (evaluation of the extractor where no row qualifies). With no record at all, and
  with a record whose only tree path lies outside the prefix, the list of rows is empty,
  the frame built from it has no column, and sorting it by \<open>tree_number\<close> and
  \<open>mesh_id\<close> raises \<open>KeyError\<close>: no empty table is returned.
\<close>

theorem extract_c04_hierarchy_empty_raises:
  "extract_c04_hierarchy [] ''C04'' = Inl KeyError \<and>
   extract_c04_hierarchy
     [\<lparr>UI = Some ''D000001'', MH = Some ''Calcimycin'', MN = Some [''C05.100'']\<rparr>] ''C04''
     = Inl KeyError"
  by (simp add: extract_c04_hierarchy_def sort_values_def DataFrame_columns_def startswith_def)

subsection \<open>Disease filter\<close>




lemma lower_mesh_tag: "lower ''MeSH:'' = ''mesh:''"
  by code_simp

lemma matches_mesh:
  "r \<noteq> [] \<and> startswith (lower r) ''mesh:'' \<longleftrightarrow> matches_prefix_ci ''MeSH:'' r"
proof (cases "r = []")
  case True
  then show ?thesis by (simp add: matches_prefix_ci_def lower_mesh_tag) (simp add: lower_def)
next
  case False
  then show ?thesis
    by (simp add: matches_prefix_ci_def startswith_def lower_mesh_tag)
       (simp add: lower_def take_map)
qed

lemma xrefs_loop_eq:
  "xrefs_loop refs acc =
     acc @ map (drop 5) (filter (matches_prefix_ci ''MeSH:'')
                  (concat (map (\<lambda>ref. case ref of None \<Rightarrow> [] | Some r \<Rightarrow> [r]) refs)))"
proof (induction refs arbitrary: acc)
  case Nil
  then show ?case by simp
next
  case (Cons ref refs)
  show ?case
  proof (cases ref)
    case None
    then show ?thesis by (simp add: Cons.IH)
  next
    case (Some r)
    then show ?thesis
      using matches_mesh[of r] by (simp add: Cons.IH)
  qed
qed

lemma get_mesh_ids_eq: "get_mesh_ids xrefs = cross_refs ''MeSH:'' xrefs"
  by (cases xrefs)
     (simp_all add: get_mesh_ids_def cross_refs_def xrefs_loop_eq Let_def eval_nat_numeral)

lemma cross_refs_not_empty: "cross_refs tag xrefs \<noteq> Some []"
  by (cases xrefs) (simp_all add: cross_refs_def Let_def)

text \<open>
  C7. For every disease row the extracted identifiers are the references that match the
  tag \<open>MeSH:\<close> up to case, without the tag and in the order of the reference list; the
  result is the absent value when the list is null, and it is never the empty list, so a
  list without a match gives the absent value too.
\<close>

theorem extract_mesh_ids_cross_refs:
  "extract_mesh_ids diseases =
     map (\<lambda>d. \<lparr>diseaseId = id_col d, diseaseName = name_col d,
                meshIds = cross_refs ''MeSH:'' (dbXRefs d)\<rparr>) diseases \<and>
   cross_refs ''MeSH:'' None = None \<and>
   list_all (\<lambda>r. meshIds r \<noteq> Some []) (extract_mesh_ids diseases)"
proof -
  have "cross_refs ''MeSH:'' None = None"
    by (simp add: cross_refs_def)
  then show ?thesis
    by (simp add: extract_mesh_ids_def list_all_iff get_mesh_ids_eq cross_refs_not_empty)
qed

lemma extract_mesh_ids_example:
  "extract_mesh_ids
     [\<lparr>id_col = ''EFO_1'', name_col = ''a'', ancestors = None,
       dbXRefs = Some [Some ''OMIM:114480'', Some ''MESH:D001943'', None, Some [],
                       Some ''mesh:D2'', Some ''MeSH:D1'']\<rparr>,
      \<lparr>id_col = ''EFO_2'', name_col = ''b'', ancestors = None, dbXRefs = None\<rparr>,
      \<lparr>id_col = ''EFO_3'', name_col = ''c'', ancestors = None,
       dbXRefs = Some [Some ''OMIM:1'']\<rparr>,
      \<lparr>id_col = ''EFO_4'', name_col = ''d'', ancestors = None, dbXRefs = Some []\<rparr>]
   = [\<lparr>diseaseId = ''EFO_1'', diseaseName = ''a'', meshIds = Some [''D001943'', ''D2'', ''D1'']\<rparr>,
      \<lparr>diseaseId = ''EFO_2'', diseaseName = ''b'', meshIds = None\<rparr>,
      \<lparr>diseaseId = ''EFO_3'', diseaseName = ''c'', meshIds = None\<rparr>,
      \<lparr>diseaseId = ''EFO_4'', diseaseName = ''d'', meshIds = None\<rparr>]"
  by code_simp

theorem extract_mesh_ids_cross_refs_witness:
  "map (\<lambda>d. \<lparr>diseaseId = id_col d, diseaseName = name_col d,
             meshIds = cross_refs ''MeSH:'' (dbXRefs d)\<rparr>)
     [\<lparr>id_col = ''EFO_1'', name_col = ''a'', ancestors = None,
       dbXRefs = Some [Some ''OMIM:114480'', Some ''MESH:D001943'', None, Some [],
                       Some ''mesh:D2'', Some ''MeSH:D1'']\<rparr>,
      \<lparr>id_col = ''EFO_2'', name_col = ''b'', ancestors = None, dbXRefs = None\<rparr>,
      \<lparr>id_col = ''EFO_3'', name_col = ''c'', ancestors = None,
       dbXRefs = Some [Some ''OMIM:1'']\<rparr>,
      \<lparr>id_col = ''EFO_4'', name_col = ''d'', ancestors = None, dbXRefs = Some []\<rparr>]
   = [\<lparr>diseaseId = ''EFO_1'', diseaseName = ''a'', meshIds = Some [''D001943'', ''D2'', ''D1'']\<rparr>,
      \<lparr>diseaseId = ''EFO_2'', diseaseName = ''b'', meshIds = None\<rparr>,
      \<lparr>diseaseId = ''EFO_3'', diseaseName = ''c'', meshIds = None\<rparr>,
      \<lparr>diseaseId = ''EFO_4'', diseaseName = ''d'', meshIds = None\<rparr>]"
  using extract_mesh_ids_cross_refs[of
     "[\<lparr>id_col = ''EFO_1'', name_col = ''a'', ancestors = None,
       dbXRefs = Some [Some ''OMIM:114480'', Some ''MESH:D001943'', None, Some [],
                       Some ''mesh:D2'', Some ''MeSH:D1'']\<rparr>,
      \<lparr>id_col = ''EFO_2'', name_col = ''b'', ancestors = None, dbXRefs = None\<rparr>,
      \<lparr>id_col = ''EFO_3'', name_col = ''c'', ancestors = None,
       dbXRefs = Some [Some ''OMIM:1'']\<rparr>,
      \<lparr>id_col = ''EFO_4'', name_col = ''d'', ancestors = None, dbXRefs = Some []\<rparr>]"]
  unfolding extract_mesh_ids_example by simp

subsection \<open>Artifacts of Step 1 and Step 2\<close>

text \<open>
  Step 1 on a disease index with at least one row returns its table and has written it
  to the output path; on the index with zero rows it raises and writes nothing.
\<close>

lemma extract_diseases_run_returns:
  assumes "diseases \<noteq> []"
  shows "\<exists>result.
           extract_diseases_run files processed_dir diseases cancer_ta =
             (files(extract_diseases_output_path processed_dir \<mapsto> result), Inr result)"
  using assms
  by (simp add: extract_diseases_run_def filter_cancer_diseases_def getitem_mask_columns_def
      disease_index_columns_def Let_def)

lemma extract_diseases_run_zero_rows:
  "extract_diseases_run files processed_dir [] cancer_ta = (files, Inl KeyError)"
  by (simp add: extract_diseases_run_def filter_cancer_diseases_def getitem_mask_columns_def
      Let_def)

text \<open>
  C3 (the two paths, and Step 2 after Step 1). For every processed directory the path
  Step 1 writes its table to is not the path Step 2 loads it from; what Step 2 loads
  after Step 1 is what it would have loaded without Step 1; and started with no file on
  disk, Step 1 followed by the load of Step 2 ends in \<open>FileNotFoundError\<close>.
\<close>

theorem step2_misses_step1_output:
  "extract_diseases_output_path processed_dir \<noteq> load_cancer_diseases_path processed_dir \<and>
   load_cancer_diseases
     (fst (extract_diseases_run files processed_dir diseases cancer_ta)) processed_dir
     = load_cancer_diseases files processed_dir \<and>
   load_cancer_diseases
     (fst (extract_diseases_run Map.empty processed_dir diseases cancer_ta)) processed_dir
     = Inl FileNotFoundError"
  by (simp add: extract_diseases_output_path_def load_cancer_diseases_path_def
      load_cancer_diseases_def extract_diseases_run_def Let_def split: sum.split)

subsection \<open>Sorting and dropping duplicates\<close>

lemma sort_values_desc_set: "set (sort_values_desc key rows) = set rows"
  by (simp add: sort_values_desc_def)

lemma sort_values_desc_mset: "mset (sort_values_desc key rows) = mset rows"
  by (simp add: sort_values_desc_def)

lemma sort_values_desc_sorted:
  "sorted_wrt (\<lambda>a b. key b \<le> key a) (sort_values_desc key rows)"
proof -
  have "sorted (map key (sort_key key (rev rows)))" by simp
  then have "sorted_wrt (\<lambda>a b. key a \<le> key b) (sort_key key (rev rows))"
    by (simp add: sorted_wrt_map)
  then show ?thesis
    by (simp add: sort_values_desc_def sorted_wrt_rev)
qed

lemma drop_duplicates_last_subset: "set (drop_duplicates_last key rows) \<subseteq> set rows"
  by (induction rows) auto

lemma drop_duplicates_last_keys:
  "key ` set (drop_duplicates_last key rows) = key ` set rows"
  by (induction rows) auto

lemma drop_duplicates_last_distinct: "distinct (map key (drop_duplicates_last key rows))"
proof (induction rows)
  case Nil
  then show ?case by simp
next
  case (Cons r rows)
  have "key r \<notin> key ` set rows \<Longrightarrow> key r \<notin> key ` set (drop_duplicates_last key rows)"
    by (simp add: drop_duplicates_last_keys)
  with Cons show ?case by auto
qed

lemma drop_duplicates_last_lowest:
  fixes lev :: "'r \<Rightarrow> 'l::linorder"
  assumes "sorted_wrt (\<lambda>a b. lev b \<le> lev a) rows"
    and "r \<in> set (drop_duplicates_last key rows)"
    and "x \<in> set rows" and "key x = key r"
  shows "lev r \<le> lev x"
  using assms
proof (induction rows)
  case Nil
  then show ?case by simp
next
  case (Cons y rows)
  from Cons.prems(1) have above: "\<forall>z\<in>set rows. lev z \<le> lev y"
    and sorted_rest: "sorted_wrt (\<lambda>a b. lev b \<le> lev a) rows"
    by simp_all
  show ?case
  proof (cases "r \<in> set (drop_duplicates_last key rows)")
    case True
    then have r_in: "r \<in> set rows"
      using drop_duplicates_last_subset[of key rows] by blast
    show ?thesis
    proof (cases "x \<in> set rows")
      case True
      from Cons.IH[OF sorted_rest \<open>r \<in> set (drop_duplicates_last key rows)\<close> True Cons.prems(4)]
      show ?thesis .
    next
      case False
      with Cons.prems(3) have "x = y" by simp
      with above r_in show ?thesis by blast
    qed
  next
    case False
    with Cons.prems(2) have ry: "r = y" and fresh: "key y \<notin> key ` set rows"
      by (simp_all split: if_splits)
    have "x \<notin> set rows"
    proof
      assume "x \<in> set rows"
      then have "key x \<in> key ` set rows" by (rule imageI)
      with fresh ry Cons.prems(4) show False by metis
    qed
    with Cons.prems(3) have "x = y" by simp
    with ry show ?thesis by blast
  qed
qed

lemma distinct_map_sort_key:
  "distinct (map f (sort_key g rows)) = distinct (map f rows)"
proof -
  have "mset (map f (sort_key g rows)) = mset (map f rows)" by simp
  then show ?thesis by (rule mset_eq_imp_distinct_iff)
qed

text \<open>
  The rows kept by \<open>keep='last'\<close> do not depend on how the descending sort orders rows
  of equal level: for every arrangement of the rows in descending order of level, the
  keys that stay are the keys of the rows, each once, and the row that stays for a key
  has the lowest level of that key.
\<close>

lemma drop_duplicates_last_any_descending_order:
  fixes lev :: "'r \<Rightarrow> 'l::linorder"
  assumes "mset s = mset rows" and "sorted_wrt (\<lambda>a b. lev b \<le> lev a) s"
  shows "distinct (map key (drop_duplicates_last key s)) \<and>
         key ` set (drop_duplicates_last key s) = key ` set rows \<and>
         (\<forall>r\<in>set (drop_duplicates_last key s). \<forall>x\<in>set rows. key x = key r \<longrightarrow> lev r \<le> lev x)"
proof -
  from assms(1) have s: "set s = set rows" by (rule mset_eq_setD)
  have "lev r \<le> lev x"
    if "r \<in> set (drop_duplicates_last key s)" "x \<in> set rows" "key x = key r" for r x
    using drop_duplicates_last_lowest[OF assms(2) that(1) _ that(3)] that(2) s by simp
  then show ?thesis
    by (simp add: drop_duplicates_last_distinct drop_duplicates_last_keys s)
qed

subsection \<open>Crosswalk builder\<close>

lemma mesh_ids_loop_eq:
  "mesh_ids_loop row ids rows =
     rows @ map (\<lambda>m. \<lparr>p_diseaseId = diseaseId row, p_diseaseName = diseaseName row,
                       p_meshId = m\<rparr>) ids"
  by (induction ids arbitrary: rows) simp_all

lemma iterrows_loop_eq:
  "iterrows_loop ds rows =
     rows @ concat (map (\<lambda>d. map (\<lambda>m. \<lparr>p_diseaseId = diseaseId d, p_diseaseName = diseaseName d,
                                         p_meshId = m\<rparr>)
                              (case meshIds d of None \<Rightarrow> [] | Some ids \<Rightarrow> ids)) ds)"
  by (induction ds arbitrary: rows) (simp_all add: mesh_ids_loop_eq)

lemma merge_hierarchy_Cons:
  "merge_hierarchy (p # ps) mh =
     map (\<lambda>h. \<lparr>cw_diseaseId = p_diseaseId p, cw_diseaseName = p_diseaseName p,
                  cw_meshId = p_meshId p, cw_mesh_name = mesh_name h,
                  cw_tree_number = tree_number h, cw_level = level h\<rparr>)
       (filter (\<lambda>h. mesh_id h = p_meshId p) mh) @ merge_hierarchy ps mh"
  by (simp add: merge_hierarchy_def)

lemma merge_hierarchy_keys:
  "(\<lambda>r. (cw_diseaseId r, cw_meshId r)) ` set (merge_hierarchy ps mh) =
     set (map (\<lambda>p. (p_diseaseId p, p_meshId p))
            (filter (\<lambda>p. p_meshId p \<in> set (map mesh_id mh)) ps))"
proof (induction ps)
  case Nil
  then show ?case by (simp add: merge_hierarchy_def)
next
  case (Cons p ps)
  have "(\<lambda>r. (cw_diseaseId r, cw_meshId r)) `
          set (map (\<lambda>h. \<lparr>cw_diseaseId = p_diseaseId p, cw_diseaseName = p_diseaseName p,
                  cw_meshId = p_meshId p, cw_mesh_name = mesh_name h,
                  cw_tree_number = tree_number h, cw_level = level h\<rparr>)
               (filter (\<lambda>h. mesh_id h = p_meshId p) mh)) =
        (if p_meshId p \<in> set (map mesh_id mh) then {(p_diseaseId p, p_meshId p)} else {})"
    by (auto simp: image_iff)
  with Cons.IH show ?case
    by (simp add: merge_hierarchy_Cons image_Un)
qed

lemma pairs_of_rows:
  "map (\<lambda>p. (p_diseaseId p, p_meshId p))
     (filter (\<lambda>p. p_meshId p \<in> S) (iterrows_loop (filter (\<lambda>d. meshIds d \<noteq> None) ds) [])) =
   concat (map (\<lambda>d. map (\<lambda>m. (diseaseId d, m))
                      (filter (\<lambda>m. m \<in> S) (case meshIds d of None \<Rightarrow> [] | Some ids \<Rightarrow> ids))) ds)"
proof (induction ds)
  case Nil
  then show ?case by simp
next
  case (Cons d ds)
  show ?case
  proof (cases "meshIds d")
    case None
    with Cons.IH show ?thesis by simp
  next
    case (Some ids)
    with Cons.IH show ?thesis
      by (simp add: iterrows_loop_eq filter_map comp_def)
  qed
qed

lemma merge_hierarchy_levels:
  assumes "r \<in> set (merge_hierarchy ps mh)"
  shows "\<exists>h\<in>set mh. mesh_id h = cw_meshId r \<and> level h = cw_level r"
  using assms by (auto simp: merge_hierarchy_def)

lemma merge_hierarchy_all_levels:
  assumes "r \<in> set (merge_hierarchy ps mh)" and "h \<in> set mh" and "mesh_id h = cw_meshId r"
  shows "\<exists>x\<in>set (merge_hierarchy ps mh).
           (cw_diseaseId x, cw_meshId x) = (cw_diseaseId r, cw_meshId r) \<and> cw_level x = level h"
proof -
  from assms(1) obtain p where p: "p \<in> set ps" and "cw_diseaseId r = p_diseaseId p"
    "cw_meshId r = p_meshId p"
    by (auto simp: merge_hierarchy_def)
  with assms(2,3) show ?thesis
    unfolding merge_hierarchy_def set_concat set_map
    by (intro bexI[where x="\<lparr>cw_diseaseId = p_diseaseId p, cw_diseaseName = p_diseaseName p,
                                   cw_meshId = p_meshId p, cw_mesh_name = mesh_name h,
                                   cw_tree_number = tree_number h, cw_level = level h\<rparr>"]) auto
qed

text \<open>
  The builder returns a table exactly when the fan-out produced a row; with no row the
  frame has no column \<open>meshId\<close> and the join raises \<open>KeyError\<close>.
\<close>

lemma build_disease_mesh_crosswalk_returns:
  "(\<exists>out. build_disease_mesh_crosswalk cancer_diseases mesh_hierarchy = Inr out) \<longleftrightarrow>
     iterrows_loop (filter (\<lambda>d. meshIds d \<noteq> None) cancer_diseases) [] \<noteq> []"
  by (simp add: build_disease_mesh_crosswalk_def DataFrame_columns_def Let_def)

lemma build_disease_mesh_crosswalk_Inr:
  assumes "build_disease_mesh_crosswalk cancer_diseases mesh_hierarchy = Inr out"
  shows "distinct (map (\<lambda>r. (cw_diseaseId r, cw_meshId r)) out) \<and>
         (\<lambda>r. (cw_diseaseId r, cw_meshId r)) ` set out =
            set (disease_term_pairs cancer_diseases mesh_hierarchy) \<and>
         (\<forall>r\<in>set out.
            (\<exists>h\<in>set mesh_hierarchy. mesh_id h = cw_meshId r \<and> level h = cw_level r) \<and>
            (\<forall>h\<in>set mesh_hierarchy. mesh_id h = cw_meshId r \<longrightarrow> cw_level r \<le> level h))"
proof -
  define rows where "rows = iterrows_loop (filter (\<lambda>d. meshIds d \<noteq> None) cancer_diseases) []"
  define joined where "joined = merge_hierarchy rows mesh_hierarchy"
  define key :: "crosswalk_row \<Rightarrow> string \<times> string"
    where "key = (\<lambda>r. (cw_diseaseId r, cw_meshId r))"
  define kept where "kept = drop_duplicates_last key (sort_values_desc cw_level joined)"
  from assms have out: "out = sort_key (\<lambda>r. (cw_diseaseId r, cw_level r)) kept"
    by (simp add: build_disease_mesh_crosswalk_def Let_def rows_def joined_def key_def kept_def
        split: if_splits)
  have set_out: "set out = set kept" by (simp add: out)
  have d: "distinct (map key out)"
    unfolding out distinct_map_sort_key kept_def by (rule drop_duplicates_last_distinct)
  have "key ` set joined = set (disease_term_pairs cancer_diseases mesh_hierarchy)"
    unfolding joined_def rows_def key_def merge_hierarchy_keys pairs_of_rows disease_term_pairs_def
    by (rule refl)
  then have k: "key ` set out = set (disease_term_pairs cancer_diseases mesh_hierarchy)"
    by (simp add: set_out kept_def drop_duplicates_last_keys sort_values_desc_set)
  have l: "(\<exists>h\<in>set mesh_hierarchy. mesh_id h = cw_meshId r \<and> level h = cw_level r) \<and>
           (\<forall>h\<in>set mesh_hierarchy. mesh_id h = cw_meshId r \<longrightarrow> cw_level r \<le> level h)"
    if r: "r \<in> set out" for r
  proof -
    from r have rk: "r \<in> set (drop_duplicates_last key (sort_values_desc cw_level joined))"
      by (simp add: set_out kept_def)
    then have rj: "r \<in> set joined"
      using drop_duplicates_last_subset[of key] by (fastforce simp: sort_values_desc_set)
    have low: "cw_level r \<le> level h" if "h \<in> set mesh_hierarchy" "mesh_id h = cw_meshId r" for h
    proof -
      from merge_hierarchy_all_levels[OF rj[unfolded joined_def] that]
      obtain x where x: "x \<in> set joined" "key x = key r" "cw_level x = level h"
        by (auto simp: joined_def key_def)
      from drop_duplicates_last_lowest[OF sort_values_desc_sorted rk _ x(2)] x(1)
      have "cw_level r \<le> cw_level x" by (simp add: sort_values_desc_set)
      with x(3) show ?thesis by simp
    qed
    from merge_hierarchy_levels[OF rj[unfolded joined_def]] low show ?thesis by blast
  qed
  from d k l show ?thesis by (simp add: key_def)
qed

lemma iterrows_nonempty_iff:
  "iterrows_loop (filter (\<lambda>d. meshIds d \<noteq> None) ds) [] \<noteq> [] \<longleftrightarrow>
     list_ex (\<lambda>d. case meshIds d of None \<Rightarrow> False | Some ids \<Rightarrow> ids \<noteq> []) ds"
  by (induction ds) (auto simp: iterrows_loop_eq split: option.splits)

text \<open>
  C4. Whenever the crosswalk builder returns a table, the table has no two rows with the
  same disease and term; its (disease, term) pairs are exactly the pairs of a disease and
  one of its cross-reference identifiers that has an entry in the hierarchy table; and
  the level of every row is the level of a hierarchy entry of its term and is at most
  the level of every hierarchy entry of that term. It does return a table when some
  disease has a cross-reference identifier.
\<close>

theorem build_disease_mesh_crosswalk_dedup:
  "(\<forall>out. build_disease_mesh_crosswalk cancer_diseases mesh_hierarchy = Inr out \<longrightarrow>
      distinct (map (\<lambda>r. (cw_diseaseId r, cw_meshId r)) out) \<and>
      (\<lambda>r. (cw_diseaseId r, cw_meshId r)) ` set out =
         set (disease_term_pairs cancer_diseases mesh_hierarchy) \<and>
      (\<forall>r\<in>set out.
         (\<exists>h\<in>set mesh_hierarchy. mesh_id h = cw_meshId r \<and> level h = cw_level r) \<and>
         (\<forall>h\<in>set mesh_hierarchy. mesh_id h = cw_meshId r \<longrightarrow> cw_level r \<le> level h))) \<and>
   (list_ex (\<lambda>d. case meshIds d of None \<Rightarrow> False | Some ids \<Rightarrow> ids \<noteq> []) cancer_diseases \<longrightarrow>
      (\<exists>out. build_disease_mesh_crosswalk cancer_diseases mesh_hierarchy = Inr out))"
proof (rule conjI)
  show "\<forall>out. build_disease_mesh_crosswalk cancer_diseases mesh_hierarchy = Inr out \<longrightarrow>
      distinct (map (\<lambda>r. (cw_diseaseId r, cw_meshId r)) out) \<and>
      (\<lambda>r. (cw_diseaseId r, cw_meshId r)) ` set out =
         set (disease_term_pairs cancer_diseases mesh_hierarchy) \<and>
      (\<forall>r\<in>set out.
         (\<exists>h\<in>set mesh_hierarchy. mesh_id h = cw_meshId r \<and> level h = cw_level r) \<and>
         (\<forall>h\<in>set mesh_hierarchy. mesh_id h = cw_meshId r \<longrightarrow> cw_level r \<le> level h))"
    by (intro allI impI) (rule build_disease_mesh_crosswalk_Inr)
  show "list_ex (\<lambda>d. case meshIds d of None \<Rightarrow> False | Some ids \<Rightarrow> ids \<noteq> []) cancer_diseases \<longrightarrow>
      (\<exists>out. build_disease_mesh_crosswalk cancer_diseases mesh_hierarchy = Inr out)"
    by (simp only: build_disease_mesh_crosswalk_returns iterrows_nonempty_iff simp_thms)
qed

lemma build_disease_mesh_crosswalk_example:
  "build_disease_mesh_crosswalk
     [\<lparr>diseaseId = ''EFO_2'', diseaseName = ''b'', meshIds = Some [''D9'', ''D7'']\<rparr>,
      \<lparr>diseaseId = ''EFO_1'', diseaseName = ''a'', meshIds = Some [''D7'']\<rparr>,
      \<lparr>diseaseId = ''EFO_3'', diseaseName = ''c'', meshIds = None\<rparr>]
     [\<lparr>mesh_id = ''D7'', mesh_name = ''t'', tree_number = ''C04.588.1.2.3'', level = 5\<rparr>,
      \<lparr>mesh_id = ''D7'', mesh_name = ''t'', tree_number = ''C04.588.9'', level = 3\<rparr>,
      \<lparr>mesh_id = ''D8'', mesh_name = ''u'', tree_number = ''C04.588.2'', level = 3\<rparr>]
   = Inr [\<lparr>cw_diseaseId = ''EFO_1'', cw_diseaseName = ''a'', cw_meshId = ''D7'',
           cw_mesh_name = ''t'', cw_tree_number = ''C04.588.9'', cw_level = 3\<rparr>,
          \<lparr>cw_diseaseId = ''EFO_2'', cw_diseaseName = ''b'', cw_meshId = ''D7'',
           cw_mesh_name = ''t'', cw_tree_number = ''C04.588.9'', cw_level = 3\<rparr>]"
  by (simp add: build_disease_mesh_crosswalk_def DataFrame_columns_def merge_hierarchy_def
      sort_values_desc_def Let_def less_eq_char_def less_char_def)

theorem build_disease_mesh_crosswalk_dedup_witness:
  "build_disease_mesh_crosswalk
     [\<lparr>diseaseId = ''EFO_2'', diseaseName = ''b'', meshIds = Some [''D9'', ''D7'']\<rparr>,
      \<lparr>diseaseId = ''EFO_1'', diseaseName = ''a'', meshIds = Some [''D7'']\<rparr>,
      \<lparr>diseaseId = ''EFO_3'', diseaseName = ''c'', meshIds = None\<rparr>]
     [\<lparr>mesh_id = ''D7'', mesh_name = ''t'', tree_number = ''C04.588.1.2.3'', level = 5\<rparr>,
      \<lparr>mesh_id = ''D7'', mesh_name = ''t'', tree_number = ''C04.588.9'', level = 3\<rparr>,
      \<lparr>mesh_id = ''D8'', mesh_name = ''u'', tree_number = ''C04.588.2'', level = 3\<rparr>]
   = Inr [\<lparr>cw_diseaseId = ''EFO_1'', cw_diseaseName = ''a'', cw_meshId = ''D7'',
           cw_mesh_name = ''t'', cw_tree_number = ''C04.588.9'', cw_level = 3\<rparr>,
          \<lparr>cw_diseaseId = ''EFO_2'', cw_diseaseName = ''b'', cw_meshId = ''D7'',
           cw_mesh_name = ''t'', cw_tree_number = ''C04.588.9'', cw_level = 3\<rparr>] \<and>
   set (disease_term_pairs
     [\<lparr>diseaseId = ''EFO_2'', diseaseName = ''b'', meshIds = Some [''D9'', ''D7'']\<rparr>,
      \<lparr>diseaseId = ''EFO_1'', diseaseName = ''a'', meshIds = Some [''D7'']\<rparr>,
      \<lparr>diseaseId = ''EFO_3'', diseaseName = ''c'', meshIds = None\<rparr>]
     [\<lparr>mesh_id = ''D7'', mesh_name = ''t'', tree_number = ''C04.588.1.2.3'', level = 5\<rparr>,
      \<lparr>mesh_id = ''D7'', mesh_name = ''t'', tree_number = ''C04.588.9'', level = 3\<rparr>,
      \<lparr>mesh_id = ''D8'', mesh_name = ''u'', tree_number = ''C04.588.2'', level = 3\<rparr>])
   = {(''EFO_1'', ''D7''), (''EFO_2'', ''D7'')}"
  using build_disease_mesh_crosswalk_dedup[of
     "[\<lparr>diseaseId = ''EFO_2'', diseaseName = ''b'', meshIds = Some [''D9'', ''D7'']\<rparr>,
      \<lparr>diseaseId = ''EFO_1'', diseaseName = ''a'', meshIds = Some [''D7'']\<rparr>,
      \<lparr>diseaseId = ''EFO_3'', diseaseName = ''c'', meshIds = None\<rparr>]"
     "[\<lparr>mesh_id = ''D7'', mesh_name = ''t'', tree_number = ''C04.588.1.2.3'', level = 5\<rparr>,
      \<lparr>mesh_id = ''D7'', mesh_name = ''t'', tree_number = ''C04.588.9'', level = 3\<rparr>,
      \<lparr>mesh_id = ''D8'', mesh_name = ''u'', tree_number = ''C04.588.2'', level = 3\<rparr>]"]
    build_disease_mesh_crosswalk_example
  by auto

subsection \<open>Association aggregator\<close>

lemma merge_crosswalk_Cons:
  "merge_crosswalk (a # as) cw =
     map (\<lambda>c. \<lparr>j_diseaseId = a_diseaseId a, j_targetId = a_targetId a, j_score = a_score a,
                 j_evidenceCount = a_evidenceCount a, j_meshId = cw_meshId c\<rparr>)
       (filter (\<lambda>c. cw_diseaseId c = a_diseaseId a) cw) @ merge_crosswalk as cw"
  by (simp add: merge_crosswalk_def)

lemma merge_crosswalk_Nil: "merge_crosswalk [] cw = []"
  by (simp add: merge_crosswalk_def)

lemma merge_crosswalk_isin:
  "merge_crosswalk (filter (\<lambda>a. a_diseaseId a \<in> set (map cw_diseaseId cw)) as) cw =
     merge_crosswalk as cw"
proof (induction as)
  case Nil
  then show ?case by simp
next
  case (Cons a as)
  show ?case
  proof (cases "a_diseaseId a \<in> set (map cw_diseaseId cw)")
    case True
    with Cons.IH show ?thesis by (simp add: merge_crosswalk_Cons)
  next
    case False
    then have "filter (\<lambda>c. cw_diseaseId c = a_diseaseId a) cw = []"
      by (auto simp: filter_empty_conv image_iff)
    with False Cons.IH show ?thesis by (simp add: merge_crosswalk_Cons)
  qed
qed

lemma group_of_merge:
  "map (\<lambda>j. (j_score j, j_evidenceCount j))
     (filter (\<lambda>j. (j_targetId j, j_meshId j) = (g, t)) (merge_crosswalk as cw)) =
   map (\<lambda>a. (a_score a, a_evidenceCount a)) (contributing as cw g t)"
proof (induction as)
  case Nil
  then show ?case by (simp add: merge_crosswalk_Nil contributing_def)
next
  case (Cons a as)
  have c: "contributing (a # as) cw g t =
             (if a_targetId a = g
              then map (\<lambda>c. a) (filter (\<lambda>c. cw_diseaseId c = a_diseaseId a \<and> cw_meshId c = t) cw)
              else []) @ contributing as cw g t"
    by (simp add: contributing_def)
  show ?case
  proof (cases "a_targetId a = g")
    case True
    with Cons.IH show ?thesis
      by (simp add: merge_crosswalk_Cons c filter_map comp_def conj_commute)
  next
    case False
    with Cons.IH show ?thesis
      by (simp add: merge_crosswalk_Cons c filter_map comp_def)
  qed
qed

lemma groupby_agg_keys:
  "map (\<lambda>r. (targetId r, meshId r)) (groupby_agg joined) =
     sort (remdups (map (\<lambda>j. (j_targetId j, j_meshId j)) joined))"
  by (simp add: groupby_agg_def comp_def Let_def)

lemma groupby_agg_row:
  assumes "r \<in> set (groupby_agg joined)"
  shows "(targetId r, meshId r) \<in> set (map (\<lambda>j. (j_targetId j, j_meshId j)) joined) \<and>
         score r = Max (set (map j_score
                     (filter (\<lambda>j. (j_targetId j, j_meshId j) = (targetId r, meshId r)) joined))) \<and>
         evidenceCount r = sum_list (map j_evidenceCount
                     (filter (\<lambda>j. (j_targetId j, j_meshId j) = (targetId r, meshId r)) joined))"
  using assms by (auto simp: groupby_agg_def Let_def)

lemma of_int_sum_list_sint:
  "of_int (sum_list (map sint ws)) = (sum_list ws :: int64)"
  by (induction ws) simp_all

lemma sint_sum_list_wraps:
  "sint (sum_list ws :: int64) = signed_take_bit 63 (sum_list (map sint ws))"
proof -
  have "sint (sum_list ws :: int64) = sint (of_int (sum_list (map sint ws)) :: int64)"
    by (simp only: of_int_sum_list_sint)
  also have "\<dots> = signed_take_bit 63 (sum_list (map sint ws))"
    by (simp add: sint_sbintrunc')
  finally show ?thesis .
qed

lemma sint_sum_list_exact_iff:
  "sint (sum_list ws :: int64) = sum_list (map sint ws) \<longleftrightarrow>
     int64_range (sum_list (map sint ws))"
  unfolding sint_sum_list_wraps int64_range_def
  by (rule signed_take_bit_int_eq_self_iff)

lemma total_evidence_map:
  "total_evidence rows = sum_list (map sint (map a_evidenceCount rows))"
  by (simp add: total_evidence_def comp_def)

text \<open>
  C5 (the evidence count beyond 64 bits). Two diseases that map to one term and carry one
  gene, with the evidence counts \<open>9223372036854775807\<close> and \<open>1\<close>: the sum of the counts of
  the contributing rows is \<open>9223372036854775808\<close>, and the evidence count of the output
  row is \<open>-9223372036854775808\<close>.
\<close>

theorem build_final_dataset_sum_wraps:
  "map (\<lambda>a. sint (a_evidenceCount a))
     [\<lparr>a_diseaseId = ''D1'', a_targetId = ''G'', a_score = 0.8,
       a_evidenceCount = 9223372036854775807\<rparr>,
      \<lparr>a_diseaseId = ''D2'', a_targetId = ''G'', a_score = 0.6, a_evidenceCount = 1\<rparr>]
     = [9223372036854775807, 1] \<and>
   map (\<lambda>r. (targetId r, meshId r, score r, sint (evidenceCount r)))
     (build_final_dataset
        [\<lparr>a_diseaseId = ''D1'', a_targetId = ''G'', a_score = 0.8,
          a_evidenceCount = 9223372036854775807\<rparr>,
         \<lparr>a_diseaseId = ''D2'', a_targetId = ''G'', a_score = 0.6, a_evidenceCount = 1\<rparr>] []
        [\<lparr>cw_diseaseId = ''D1'', cw_diseaseName = ''a'', cw_meshId = ''T'', cw_mesh_name = ''t'',
          cw_tree_number = ''C04.588.9'', cw_level = 3\<rparr>,
         \<lparr>cw_diseaseId = ''D2'', cw_diseaseName = ''b'', cw_meshId = ''T'', cw_mesh_name = ''t'',
          cw_tree_number = ''C04.588.9'', cw_level = 3\<rparr>])
     = [(''G'', ''T'', 0.8, - 9223372036854775808)] \<and>
   total_evidence
     (contributing
        [\<lparr>a_diseaseId = ''D1'', a_targetId = ''G'', a_score = 0.8,
          a_evidenceCount = 9223372036854775807\<rparr>,
         \<lparr>a_diseaseId = ''D2'', a_targetId = ''G'', a_score = 0.6, a_evidenceCount = 1\<rparr>]
        [\<lparr>cw_diseaseId = ''D1'', cw_diseaseName = ''a'', cw_meshId = ''T'', cw_mesh_name = ''t'',
          cw_tree_number = ''C04.588.9'', cw_level = 3\<rparr>,
         \<lparr>cw_diseaseId = ''D2'', cw_diseaseName = ''b'', cw_meshId = ''T'', cw_mesh_name = ''t'',
          cw_tree_number = ''C04.588.9'', cw_level = 3\<rparr>] ''G'' ''T'')
     = 9223372036854775808"
  by (simp add: build_final_dataset_def merge_crosswalk_def groupby_agg_def Let_def
      contributing_def total_evidence_def del: set_filter)

text \<open>
  C5 (as amended). The aggregator's table has no two rows with the same gene and term.
  For every row, the contributing rows of its gene and term are not empty, the score is
  the score of one of them and is at least the score of each, and the evidence count is
  the sum of their evidence counts in signed 64-bit arithmetic: it is the sum of the
  counts as integers exactly when that sum lies in the signed 64-bit range. Every
  association row joined to a disease-term pair has its gene and term in the table.
\<close>

theorem build_final_dataset_aggregates:
  "distinct (map (\<lambda>r. (targetId r, meshId r))
      (build_final_dataset associations cancer_diseases crosswalk)) \<and>
   (\<forall>r\<in>set (build_final_dataset associations cancer_diseases crosswalk).
      contributing associations crosswalk (targetId r) (meshId r) \<noteq> [] \<and>
      score r \<in> set (map a_score (contributing associations crosswalk (targetId r) (meshId r))) \<and>
      (\<forall>a\<in>set (contributing associations crosswalk (targetId r) (meshId r)). a_score a \<le> score r) \<and>
      evidenceCount r =
        sum_list (map a_evidenceCount (contributing associations crosswalk (targetId r) (meshId r))) \<and>
      (sint (evidenceCount r) =
         total_evidence (contributing associations crosswalk (targetId r) (meshId r)) \<longleftrightarrow>
       int64_range (total_evidence (contributing associations crosswalk (targetId r) (meshId r))))) \<and>
   (\<forall>a\<in>set associations. \<forall>c\<in>set crosswalk. cw_diseaseId c = a_diseaseId a \<longrightarrow>
      (a_targetId a, cw_meshId c) \<in>
        set (map (\<lambda>r. (targetId r, meshId r))
               (build_final_dataset associations cancer_diseases crosswalk)))"
proof -
  define joined where "joined = merge_crosswalk associations crosswalk"
  have b: "build_final_dataset associations cancer_diseases crosswalk = groupby_agg joined"
    unfolding build_final_dataset_def Let_def joined_def merge_crosswalk_isin by (rule refl)
  have d: "distinct (map (\<lambda>r. (targetId r, meshId r)) (groupby_agg joined))"
    by (simp add: groupby_agg_keys)
  have row: "contributing associations crosswalk (targetId r) (meshId r) \<noteq> [] \<and>
      score r \<in> set (map a_score (contributing associations crosswalk (targetId r) (meshId r))) \<and>
      (\<forall>a\<in>set (contributing associations crosswalk (targetId r) (meshId r)). a_score a \<le> score r) \<and>
      evidenceCount r =
        sum_list (map a_evidenceCount (contributing associations crosswalk (targetId r) (meshId r))) \<and>
      (sint (evidenceCount r) =
         total_evidence (contributing associations crosswalk (targetId r) (meshId r)) \<longleftrightarrow>
       int64_range (total_evidence (contributing associations crosswalk (targetId r) (meshId r))))"
    if r: "r \<in> set (groupby_agg joined)" for r
  proof -
    let ?grp = "filter (\<lambda>j. (j_targetId j, j_meshId j) = (targetId r, meshId r)) joined"
    let ?con = "contributing associations crosswalk (targetId r) (meshId r)"
    from group_of_merge[of "targetId r" "meshId r" associations crosswalk]
    have g: "map (\<lambda>j. (j_score j, j_evidenceCount j)) ?grp =
             map (\<lambda>a. (a_score a, a_evidenceCount a)) ?con"
      by (simp add: joined_def)
    have "map fst (map (\<lambda>j. (j_score j, j_evidenceCount j)) ?grp) =
          map fst (map (\<lambda>a. (a_score a, a_evidenceCount a)) ?con)"
      by (rule arg_cong[OF g])
    then have gs: "map j_score ?grp = map a_score ?con"
      by (simp add: comp_def)
    have "map snd (map (\<lambda>j. (j_score j, j_evidenceCount j)) ?grp) =
          map snd (map (\<lambda>a. (a_score a, a_evidenceCount a)) ?con)"
      by (rule arg_cong[OF g])
    then have ge: "map j_evidenceCount ?grp = map a_evidenceCount ?con"
      by (simp add: comp_def)
    from groupby_agg_row[OF r] have k: "(targetId r, meshId r) \<in> set (map (\<lambda>j. (j_targetId j, j_meshId j)) joined)"
      and s: "score r = Max (set (map j_score ?grp))"
      and e: "evidenceCount r = sum_list (map j_evidenceCount ?grp)"
      by simp_all
    from k have "?grp \<noteq> []" by (auto simp: filter_empty_conv)
    then have "map j_score ?grp \<noteq> []" by (simp only: map_is_Nil_conv not_False_eq_True)
    then have ne: "?con \<noteq> []" unfolding gs by (simp only: map_is_Nil_conv not_False_eq_True)
    then have ne': "set (map a_score ?con) \<noteq> {}" by simp
    from s have s': "score r = Max (set (map a_score ?con))" unfolding gs .
    have "score r \<in> set (map a_score ?con)"
      unfolding s' using ne' by (intro Max_in) simp_all
    moreover have "\<forall>a\<in>set ?con. a_score a \<le> score r"
      unfolding s' by (auto intro!: Max_ge)
    moreover have e': "evidenceCount r = sum_list (map a_evidenceCount ?con)"
      using e ge by simp
    moreover have "sint (evidenceCount r) = total_evidence ?con \<longleftrightarrow>
                   int64_range (total_evidence ?con)"
      unfolding e' total_evidence_map by (rule sint_sum_list_exact_iff)
    ultimately show ?thesis using ne by simp
  qed
  have all: "(a_targetId a, cw_meshId c) \<in> set (map (\<lambda>r. (targetId r, meshId r)) (groupby_agg joined))"
    if "a \<in> set associations" "c \<in> set crosswalk" "cw_diseaseId c = a_diseaseId a" for a c
  proof -
    from that have "\<lparr>j_diseaseId = a_diseaseId a, j_targetId = a_targetId a, j_score = a_score a,
                 j_evidenceCount = a_evidenceCount a, j_meshId = cw_meshId c\<rparr> \<in> set joined"
      unfolding joined_def merge_crosswalk_def by auto
    then have "(a_targetId a, cw_meshId c) \<in> set (map (\<lambda>j. (j_targetId j, j_meshId j)) joined)"
      by force
    then show ?thesis by (simp add: groupby_agg_keys)
  qed
  show ?thesis unfolding b
  proof (rule conjI[OF d], rule conjI)
    show "\<forall>r\<in>set (groupby_agg joined).
      contributing associations crosswalk (targetId r) (meshId r) \<noteq> [] \<and>
      score r \<in> set (map a_score (contributing associations crosswalk (targetId r) (meshId r))) \<and>
      (\<forall>a\<in>set (contributing associations crosswalk (targetId r) (meshId r)). a_score a \<le> score r) \<and>
      evidenceCount r =
        sum_list (map a_evidenceCount (contributing associations crosswalk (targetId r) (meshId r))) \<and>
      (sint (evidenceCount r) =
         total_evidence (contributing associations crosswalk (targetId r) (meshId r)) \<longleftrightarrow>
       int64_range (total_evidence (contributing associations crosswalk (targetId r) (meshId r))))"
      by (rule ballI) (rule row)
    show "\<forall>a\<in>set associations. \<forall>c\<in>set crosswalk. cw_diseaseId c = a_diseaseId a \<longrightarrow>
      (a_targetId a, cw_meshId c) \<in>
        set (map (\<lambda>r. (targetId r, meshId r)) (groupby_agg joined))"
      by (intro ballI impI) (rule all)
  qed
qed

lemma build_final_dataset_example:
  "build_final_dataset
   [\<lparr>a_diseaseId = ''D1'', a_targetId = ''G'', a_score = 0.8, a_evidenceCount = 5\<rparr>,
    \<lparr>a_diseaseId = ''D2'', a_targetId = ''G'', a_score = 0.6, a_evidenceCount = 3\<rparr>,
    \<lparr>a_diseaseId = ''D3'', a_targetId = ''G'', a_score = 0.9, a_evidenceCount = 7\<rparr>,
    \<lparr>a_diseaseId = ''D2'', a_targetId = ''F'', a_score = 0.5, a_evidenceCount = 2\<rparr>] []
   [\<lparr>cw_diseaseId = ''D1'', cw_diseaseName = ''a'', cw_meshId = ''T'', cw_mesh_name = ''t'',
     cw_tree_number = ''C04.588.9'', cw_level = 3\<rparr>,
    \<lparr>cw_diseaseId = ''D2'', cw_diseaseName = ''b'', cw_meshId = ''T'', cw_mesh_name = ''t'',
     cw_tree_number = ''C04.588.9'', cw_level = 3\<rparr>]
  = [\<lparr>targetId = ''F'', meshId = ''T'', score = 0.5, evidenceCount = 2\<rparr>,
     \<lparr>targetId = ''G'', meshId = ''T'', score = 0.8, evidenceCount = 8\<rparr>]"
  by (simp add: build_final_dataset_def merge_crosswalk_def groupby_agg_def Let_def
      less_eq_char_def less_char_def del: set_filter)

theorem build_final_dataset_aggregates_witness:
  "build_final_dataset
   [\<lparr>a_diseaseId = ''D1'', a_targetId = ''G'', a_score = 0.8, a_evidenceCount = 5\<rparr>,
    \<lparr>a_diseaseId = ''D2'', a_targetId = ''G'', a_score = 0.6, a_evidenceCount = 3\<rparr>,
    \<lparr>a_diseaseId = ''D3'', a_targetId = ''G'', a_score = 0.9, a_evidenceCount = 7\<rparr>,
    \<lparr>a_diseaseId = ''D2'', a_targetId = ''F'', a_score = 0.5, a_evidenceCount = 2\<rparr>] []
   [\<lparr>cw_diseaseId = ''D1'', cw_diseaseName = ''a'', cw_meshId = ''T'', cw_mesh_name = ''t'',
     cw_tree_number = ''C04.588.9'', cw_level = 3\<rparr>,
    \<lparr>cw_diseaseId = ''D2'', cw_diseaseName = ''b'', cw_meshId = ''T'', cw_mesh_name = ''t'',
     cw_tree_number = ''C04.588.9'', cw_level = 3\<rparr>]
  = [\<lparr>targetId = ''F'', meshId = ''T'', score = 0.5, evidenceCount = 2\<rparr>,
     \<lparr>targetId = ''G'', meshId = ''T'', score = 0.8, evidenceCount = 8\<rparr>] \<and>
  (0.8::real) \<in> set (map a_score (contributing
   [\<lparr>a_diseaseId = ''D1'', a_targetId = ''G'', a_score = 0.8, a_evidenceCount = 5\<rparr>,
    \<lparr>a_diseaseId = ''D2'', a_targetId = ''G'', a_score = 0.6, a_evidenceCount = 3\<rparr>,
    \<lparr>a_diseaseId = ''D3'', a_targetId = ''G'', a_score = 0.9, a_evidenceCount = 7\<rparr>,
    \<lparr>a_diseaseId = ''D2'', a_targetId = ''F'', a_score = 0.5, a_evidenceCount = 2\<rparr>]
   [\<lparr>cw_diseaseId = ''D1'', cw_diseaseName = ''a'', cw_meshId = ''T'', cw_mesh_name = ''t'',
     cw_tree_number = ''C04.588.9'', cw_level = 3\<rparr>,
    \<lparr>cw_diseaseId = ''D2'', cw_diseaseName = ''b'', cw_meshId = ''T'', cw_mesh_name = ''t'',
     cw_tree_number = ''C04.588.9'', cw_level = 3\<rparr>] ''G'' ''T'')) \<and>
  int64_range (total_evidence (contributing
   [\<lparr>a_diseaseId = ''D1'', a_targetId = ''G'', a_score = 0.8, a_evidenceCount = 5\<rparr>,
    \<lparr>a_diseaseId = ''D2'', a_targetId = ''G'', a_score = 0.6, a_evidenceCount = 3\<rparr>,
    \<lparr>a_diseaseId = ''D3'', a_targetId = ''G'', a_score = 0.9, a_evidenceCount = 7\<rparr>,
    \<lparr>a_diseaseId = ''D2'', a_targetId = ''F'', a_score = 0.5, a_evidenceCount = 2\<rparr>]
   [\<lparr>cw_diseaseId = ''D1'', cw_diseaseName = ''a'', cw_meshId = ''T'', cw_mesh_name = ''t'',
     cw_tree_number = ''C04.588.9'', cw_level = 3\<rparr>,
    \<lparr>cw_diseaseId = ''D2'', cw_diseaseName = ''b'', cw_meshId = ''T'', cw_mesh_name = ''t'',
     cw_tree_number = ''C04.588.9'', cw_level = 3\<rparr>] ''G'' ''T'')) \<and>
  total_evidence (contributing
   [\<lparr>a_diseaseId = ''D1'', a_targetId = ''G'', a_score = 0.8, a_evidenceCount = 5\<rparr>,
    \<lparr>a_diseaseId = ''D2'', a_targetId = ''G'', a_score = 0.6, a_evidenceCount = 3\<rparr>,
    \<lparr>a_diseaseId = ''D3'', a_targetId = ''G'', a_score = 0.9, a_evidenceCount = 7\<rparr>,
    \<lparr>a_diseaseId = ''D2'', a_targetId = ''F'', a_score = 0.5, a_evidenceCount = 2\<rparr>]
   [\<lparr>cw_diseaseId = ''D1'', cw_diseaseName = ''a'', cw_meshId = ''T'', cw_mesh_name = ''t'',
     cw_tree_number = ''C04.588.9'', cw_level = 3\<rparr>,
    \<lparr>cw_diseaseId = ''D2'', cw_diseaseName = ''b'', cw_meshId = ''T'', cw_mesh_name = ''t'',
     cw_tree_number = ''C04.588.9'', cw_level = 3\<rparr>] ''G'' ''T'') = 8"
  using build_final_dataset_aggregates[of
   "[\<lparr>a_diseaseId = ''D1'', a_targetId = ''G'', a_score = 0.8, a_evidenceCount = 5\<rparr>,
    \<lparr>a_diseaseId = ''D2'', a_targetId = ''G'', a_score = 0.6, a_evidenceCount = 3\<rparr>,
    \<lparr>a_diseaseId = ''D3'', a_targetId = ''G'', a_score = 0.9, a_evidenceCount = 7\<rparr>,
    \<lparr>a_diseaseId = ''D2'', a_targetId = ''F'', a_score = 0.5, a_evidenceCount = 2\<rparr>]" "[]"
   "[\<lparr>cw_diseaseId = ''D1'', cw_diseaseName = ''a'', cw_meshId = ''T'', cw_mesh_name = ''t'',
     cw_tree_number = ''C04.588.9'', cw_level = 3\<rparr>,
    \<lparr>cw_diseaseId = ''D2'', cw_diseaseName = ''b'', cw_meshId = ''T'', cw_mesh_name = ''t'',
     cw_tree_number = ''C04.588.9'', cw_level = 3\<rparr>]"]
  unfolding build_final_dataset_example
  by (simp add: contributing_def total_evidence_def int64_range_def)

subsection \<open>Identifier remapper\<close>

lemma drop_duplicates_seen_keys:
  "set (map key (drop_duplicates_seen key seen rows)) \<inter> set seen = {}"
proof (induction rows arbitrary: seen)
  case Nil
  then show ?case by simp
next
  case (Cons r rows)
  from Cons.IH[of seen] Cons.IH[of "key r # seen"] show ?case by auto
qed

lemma drop_duplicates_seen_distinct:
  "distinct (map key (drop_duplicates_seen key seen rows))"
proof (induction rows arbitrary: seen)
  case Nil
  then show ?case by simp
next
  case (Cons r rows)
  have "key r \<notin> set (map key (drop_duplicates_seen key (key r # seen) rows))"
    using drop_duplicates_seen_keys[of key "key r # seen" rows] by auto
  with Cons.IH show ?case by simp
qed

lemma load_gene2ensembl_distinct:
  "distinct (map ensemblGeneId (load_gene2ensembl file_rows tax))"
  by (simp add: load_gene2ensembl_def Let_def drop_duplicates_first_def
      drop_duplicates_seen_distinct)

lemma filter_distinct_key:
  assumes "distinct (map f xs)"
  shows "filter (\<lambda>m. f m = g) xs = (case find (\<lambda>m. f m = g) xs of None \<Rightarrow> [] | Some m \<Rightarrow> [m])"
  using assms
proof (induction xs)
  case Nil
  then show ?case by simp
next
  case (Cons x xs)
  show ?case
  proof (cases "f x = g")
    case True
    with Cons.prems have "g \<notin> f ` set xs" by auto
    then have "filter (\<lambda>m. f m = g) xs = []"
      by (auto simp: filter_empty_conv)
    with True show ?thesis by simp
  next
    case False
    with Cons show ?thesis by simp
  qed
qed

lemma merge_left_eq:
  assumes "distinct (map ensemblGeneId em)"
  shows "merge_left df em =
           map (\<lambda>r. \<lparr>m_meshId = meshId r, m_targetId = targetId r, m_score = score r,
                      m_evidenceCount = evidenceCount r,
                      m_entrezGeneId = entrez_of em (targetId r)\<rparr>) df"
proof -
  have one: "(let with_entrez = (\<lambda>e. \<lparr>m_meshId = meshId r, m_targetId = targetId r,
                                       m_score = score r, m_evidenceCount = evidenceCount r,
                                       m_entrezGeneId = e\<rparr>)
              in case filter (\<lambda>m. ensemblGeneId m = targetId r) em of
                   [] \<Rightarrow> [with_entrez None]
                 | ms \<Rightarrow> map (\<lambda>m. with_entrez (Some (entrezGeneId m))) ms) =
             [\<lparr>m_meshId = meshId r, m_targetId = targetId r, m_score = score r,
               m_evidenceCount = evidenceCount r, m_entrezGeneId = entrez_of em (targetId r)\<rparr>]"
    for r
    by (simp add: filter_distinct_key[OF assms] entrez_of_def Let_def split: option.splits)
  show ?thesis
    unfolding merge_left_def one by (induction df) simp_all
qed

lemma entrez_of_None_iff: "entrez_of em (targetId r) \<noteq> None \<longleftrightarrow> has_entry em r"
  by (force simp: entrez_of_def has_entry_def find_None_iff)

lemma entrez_of_Some_iff: "(\<exists>e. entrez_of em (targetId r) = Some e) \<longleftrightarrow> has_entry em r"
  using entrez_of_None_iff[of em r] by simp

lemma astype_int_Inr:
  "astype_int to_int vs = Inr ns \<Longrightarrow> map (\<lambda>v. Option.bind v to_int) vs = map Some ns"
  by (induction vs arbitrary: ns) (auto split: option.splits sum.splits)

lemma astype_int_total:
  "list_all (\<lambda>v. Option.bind v to_int \<noteq> None) vs \<Longrightarrow> \<exists>ns. astype_int to_int vs = Inr ns"
proof (induction vs)
  case Nil
  then show ?case by simp
next
  case (Cons v vs)
  then obtain ns where ns: "astype_int to_int vs = Inr ns" by auto
  from Cons.prems obtain s n where "v = Some s" "to_int s = Some n"
    by (cases v) auto
  with ns show ?case by simp
qed

lemma length_merge_left:
  assumes "distinct (map ensemblGeneId em)"
  shows "length (merge_left df em) = length df"
  by (simp add: merge_left_eq[OF assms])

lemma run_add_entrez_eq:
  fixes file_rows
  defines "em \<equiv> load_gene2ensembl file_rows HUMAN_TAX_ID"
  shows "run_add_entrez to_int verbose df file_rows =
     (if verbose \<and> df = [] then Inl ZeroDivisionError
      else case astype_int to_int (map (\<lambda>r. entrez_of em (targetId r)) (filter (has_entry em) df)) of
             Inl e \<Rightarrow> Inl e
           | Inr ns \<Rightarrow>
               Inr (sort_values_desc ot_score
                      (map (\<lambda>(r, n). final_of r n) (zip (filter (has_entry em) df) ns))))"
proof -
  let ?mk = "\<lambda>r. \<lparr>m_meshId = meshId r, m_targetId = targetId r, m_score = score r,
                   m_evidenceCount = evidenceCount r, m_entrezGeneId = entrez_of em (targetId r)\<rparr>"
  have m: "merge_left df em = map ?mk df"
    unfolding em_def by (rule merge_left_eq[OF load_gene2ensembl_distinct])
  have k: "filter (\<lambda>m. m_entrezGeneId m \<noteq> None) (map ?mk df) = map ?mk (filter (has_entry em) df)"
    by (simp add: filter_map comp_def entrez_of_Some_iff)
  have v: "map m_entrezGeneId (map ?mk (filter (has_entry em) df)) =
           map (\<lambda>r. entrez_of em (targetId r)) (filter (has_entry em) df)"
    by (simp add: comp_def)
  have z: "map (\<lambda>(m, n). \<lparr>disease_mesh_id = m_meshId m, gene_entrez_id = n,
                                ot_score = m_score m, evidence_count = m_evidenceCount m\<rparr>)
                 (zip (map ?mk (filter (has_entry em) df)) ns) =
        map (\<lambda>(r, n). final_of r n) (zip (filter (has_entry em) df) ns)" for ns
    by (simp add: zip_map1 final_of_def comp_def case_prod_unfold)
  have l: "length (map ?mk df) = 0 \<longleftrightarrow> df = []" by simp
  show ?thesis
    unfolding run_add_entrez_def Let_def em_def[symmetric] m k v z l by (rule refl)
qed

lemma astype_int_targets:
  assumes "astype_int to_int (map (\<lambda>r. entrez_of em (targetId r)) rows) = Inr ns"
  shows "map (\<lambda>r. target_id to_int em (targetId r)) rows = map Some ns"
  using astype_int_Inr[OF assms] by (simp add: comp_def target_id_def)

lemma targets_the:
  assumes "map t rows = map Some ns"
  shows "ns = map (\<lambda>r. the (t r)) rows"
proof -
  from assms have "map the (map t rows) = map the (map Some ns)" by simp
  then show ?thesis by (simp add: comp_def)
qed

lemma final_rows_of:
  assumes "astype_int to_int (map (\<lambda>r. entrez_of em (targetId r)) rows) = Inr ns"
  shows "map (\<lambda>(r, n). final_of r n) (zip rows ns) =
           map (\<lambda>r. final_of r (the (target_id to_int em (targetId r)))) rows"
    and "list_all (\<lambda>r. target_id to_int em (targetId r) \<noteq> None) rows"
proof -
  note t = astype_int_targets[OF assms]
  have ns: "ns = map (\<lambda>r. the (target_id to_int em (targetId r))) rows"
    by (rule targets_the[OF t])
  show "map (\<lambda>(r, n). final_of r n) (zip rows ns) =
           map (\<lambda>r. final_of r (the (target_id to_int em (targetId r)))) rows"
    unfolding ns by (simp add: zip_map2 zip_same_conv_map comp_def)
  show "list_all (\<lambda>r. target_id to_int em (targetId r) \<noteq> None) rows"
    unfolding list_all_iff
  proof
    fix r assume "r \<in> set rows"
    then have "target_id to_int em (targetId r) \<in> set (map (\<lambda>r. target_id to_int em (targetId r)) rows)"
      by simp
    then show "target_id to_int em (targetId r) \<noteq> None" unfolding t by auto
  qed
qed

lemma run_add_entrez_Inr_rows:
  assumes "run_add_entrez to_int verbose df file_rows = Inr final"
  defines "em \<equiv> load_gene2ensembl file_rows HUMAN_TAX_ID"
  shows "final = sort_values_desc ot_score
           (map (\<lambda>r. final_of r (the (target_id to_int em (targetId r)))) (filter (has_entry em) df))"
    and "list_all (\<lambda>r. target_id to_int em (targetId r) \<noteq> None) (filter (has_entry em) df)"
    and "run_add_entrez to_int False (filter (has_entry em) df) file_rows = Inr final"
proof -
  from assms(1) obtain ns where
    ns: "astype_int to_int (map (\<lambda>r. entrez_of em (targetId r)) (filter (has_entry em) df)) = Inr ns"
    and f: "final = sort_values_desc ot_score
                        (map (\<lambda>(r, n). final_of r n) (zip (filter (has_entry em) df) ns))"
    unfolding run_add_entrez_eq em_def[symmetric] by (auto split: if_splits sum.splits)
  from f show "final = sort_values_desc ot_score
           (map (\<lambda>r. final_of r (the (target_id to_int em (targetId r)))) (filter (has_entry em) df))"
    unfolding final_rows_of(1)[OF ns] .
  show "list_all (\<lambda>r. target_id to_int em (targetId r) \<noteq> None) (filter (has_entry em) df)"
    by (rule final_rows_of(2)[OF ns])
  have "filter (has_entry em) (filter (has_entry em) df) = filter (has_entry em) df" by simp
  with ns f show "run_add_entrez to_int False (filter (has_entry em) df) file_rows = Inr final"
    unfolding run_add_entrez_eq em_def[symmetric] by simp
qed

text \<open>
  The remapper returns a table unless it is asked to print the retained share of an
  empty table or the target identifier of a row with an entry does not convert.
\<close>

lemma run_add_entrez_returns:
  "(\<exists>final. run_add_entrez to_int verbose df file_rows = Inr final) \<longleftrightarrow>
     \<not> (verbose \<and> df = []) \<and>
     list_all (\<lambda>r. target_id to_int (load_gene2ensembl file_rows HUMAN_TAX_ID) (targetId r) \<noteq> None)
       (filter (has_entry (load_gene2ensembl file_rows HUMAN_TAX_ID)) df)"
proof
  assume "\<exists>final. run_add_entrez to_int verbose df file_rows = Inr final"
  then obtain final where f: "run_add_entrez to_int verbose df file_rows = Inr final" ..
  from f have "\<not> (verbose \<and> df = [])"
    unfolding run_add_entrez_eq by (auto split: if_splits)
  with run_add_entrez_Inr_rows(2)[OF f]
  show "\<not> (verbose \<and> df = []) \<and>
     list_all (\<lambda>r. target_id to_int (load_gene2ensembl file_rows HUMAN_TAX_ID) (targetId r) \<noteq> None)
       (filter (has_entry (load_gene2ensembl file_rows HUMAN_TAX_ID)) df)"
    by simp
next
  define em where "em = load_gene2ensembl file_rows HUMAN_TAX_ID"
  assume a: "\<not> (verbose \<and> df = []) \<and>
     list_all (\<lambda>r. target_id to_int (load_gene2ensembl file_rows HUMAN_TAX_ID) (targetId r) \<noteq> None)
       (filter (has_entry (load_gene2ensembl file_rows HUMAN_TAX_ID)) df)"
  then have "list_all (\<lambda>v. Option.bind v to_int \<noteq> None)
               (map (\<lambda>r. entrez_of em (targetId r)) (filter (has_entry em) df))"
    by (simp add: list_all_iff target_id_def em_def)
  from astype_int_total[OF this] obtain ns where
    "astype_int to_int (map (\<lambda>r. entrez_of em (targetId r)) (filter (has_entry em) df)) = Inr ns" ..
  with a show "\<exists>final. run_add_entrez to_int verbose df file_rows = Inr final"
    unfolding run_add_entrez_eq em_def[symmetric] by auto
qed

lemma final_keys:
  assumes run: "run_add_entrez to_int verbose df file_rows = Inr final"
  defines "em \<equiv> load_gene2ensembl file_rows HUMAN_TAX_ID"
  shows "mset (map (\<lambda>f. (disease_mesh_id f, Some (gene_entrez_id f))) final) =
         mset (map (\<lambda>r. (meshId r, target_id to_int em (targetId r))) (filter (has_entry em) df))"
proof -
  define rows where "rows = filter (has_entry em) df"
  define t :: "gene_mesh_row \<Rightarrow> int option"
    where "t = (\<lambda>r. target_id to_int em (targetId r))"
  note r = run_add_entrez_Inr_rows[OF run, folded em_def]
  have f: "final = sort_values_desc ot_score (map (\<lambda>r. final_of r (the (t r))) rows)"
    using r(1) unfolding rows_def t_def .
  have some: "Some (the (t r)) = t r" if "r \<in> set rows" for r
    using r(2) that by (auto simp: list_all_iff t_def rows_def)
  have e: "map (\<lambda>f. (disease_mesh_id f, Some (gene_entrez_id f)))
             (map (\<lambda>r. final_of r (the (t r))) rows) =
           map (\<lambda>r. (meshId r, t r)) rows"
    using some by (simp add: comp_def final_of_def)
  have mf: "mset final = mset (map (\<lambda>r. final_of r (the (t r))) rows)"
    unfolding f sort_values_desc_def by simp
  have "mset (map (\<lambda>f. (disease_mesh_id f, Some (gene_entrez_id f))) final) =
        image_mset (\<lambda>f. (disease_mesh_id f, Some (gene_entrez_id f))) (mset final)"
    by (rule mset_map)
  also have "\<dots> = image_mset (\<lambda>f. (disease_mesh_id f, Some (gene_entrez_id f)))
                      (mset (map (\<lambda>r. final_of r (the (t r))) rows))"
    by (simp only: mf)
  also have "\<dots> = mset (map (\<lambda>f. (disease_mesh_id f, Some (gene_entrez_id f)))
                           (map (\<lambda>r. final_of r (the (t r))) rows))"
    by (rule mset_map[symmetric])
  also have "\<dots> = mset (map (\<lambda>r. (meshId r, t r)) rows)"
    by (simp only: e)
  finally show ?thesis unfolding rows_def t_def .
qed

lemma distinct_map_Some_snd:
  fixes k :: "'r \<Rightarrow> 'k" and v :: "'r \<Rightarrow> 'v"
  shows "distinct (map (\<lambda>f. (k f, Some (v f))) xs) = distinct (map (\<lambda>f. (k f, v f)) xs)"
proof -
  have m: "map (\<lambda>f. (k f, Some (v f))) xs =
           map (\<lambda>p. (fst p, Some (snd p))) (map (\<lambda>f. (k f, v f)) xs)"
    by simp
  have "inj (\<lambda>p::'k \<times> 'v. (fst p, Some (snd p)))"
    by (auto simp: inj_on_def prod_eq_iff)
  then have "inj_on (\<lambda>p::'k \<times> 'v. (fst p, Some (snd p))) (set (map (\<lambda>f. (k f, v f)) xs))"
    by (rule inj_on_subset) simp
  then have "distinct (map (\<lambda>p. (fst p, Some (snd p))) (map (\<lambda>f. (k f, v f)) xs)) =
             distinct (map (\<lambda>f. (k f, v f)) xs)"
    by (simp only: distinct_map[of _ "map (\<lambda>f. (k f, v f)) xs"] simp_thms)
  with m show ?thesis by (simp only:)
qed

lemma run_add_entrez_example:
  "run_add_entrez int_of_digits True
     [\<lparr>targetId = ''ENSG2'', meshId = ''D001943'', score = 0.5, evidenceCount = 1\<rparr>,
      \<lparr>targetId = ''ENSG3'', meshId = ''D001943'', score = 0.7, evidenceCount = 2\<rparr>,
      \<lparr>targetId = ''ENSG1'', meshId = ''D001943'', score = 0.9, evidenceCount = 4\<rparr>]
     [\<lparr>tax_id = ''9606'', GeneID = ''7157'', Ensembl_gene_identifier = ''ENSG1''\<rparr>,
      \<lparr>tax_id = ''10090'', GeneID = ''11'', Ensembl_gene_identifier = ''ENSG3''\<rparr>,
      \<lparr>tax_id = ''9606'', GeneID = ''672'', Ensembl_gene_identifier = ''ENSG2''\<rparr>,
      \<lparr>tax_id = ''9606'', GeneID = ''999'', Ensembl_gene_identifier = ''ENSG1''\<rparr>]
   = Inr [\<lparr>disease_mesh_id = ''D001943'', gene_entrez_id = 7157, ot_score = 0.9, evidence_count = 4\<rparr>,
          \<lparr>disease_mesh_id = ''D001943'', gene_entrez_id = 672, ot_score = 0.5, evidence_count = 1\<rparr>]"
  by (simp add: run_add_entrez_def load_gene2ensembl_def HUMAN_TAX_ID_def drop_duplicates_first_def
      merge_left_def int_of_digits_def sort_values_desc_def Let_def)



lemma run_add_entrez_shared_target_example:
  "run_add_entrez int_of_digits True
     [\<lparr>targetId = ''ENSG1'', meshId = ''D001943'', score = 0.9, evidenceCount = 4\<rparr>,
      \<lparr>targetId = ''ENSG2'', meshId = ''D001943'', score = 0.5, evidenceCount = 1\<rparr>]
     [\<lparr>tax_id = ''9606'', GeneID = ''7157'', Ensembl_gene_identifier = ''ENSG1''\<rparr>,
      \<lparr>tax_id = ''9606'', GeneID = ''7157'', Ensembl_gene_identifier = ''ENSG2''\<rparr>]
   = Inr [\<lparr>disease_mesh_id = ''D001943'', gene_entrez_id = 7157, ot_score = 0.9, evidence_count = 4\<rparr>,
          \<lparr>disease_mesh_id = ''D001943'', gene_entrez_id = 7157, ot_score = 0.5, evidence_count = 1\<rparr>]"
  by (simp add: run_add_entrez_def load_gene2ensembl_def HUMAN_TAX_ID_def drop_duplicates_first_def
      merge_left_def int_of_digits_def sort_values_desc_def Let_def)

text \<open>
  C1 (a gene-term table in which two source gene identifiers of one term map to the same
  target identifier). The table is unique per term and source gene, and the final table
  has two rows with the same term and target gene.
\<close>

theorem run_add_entrez_duplicate_pair:
  "distinct (map (\<lambda>r. (meshId r, targetId r))
     [\<lparr>targetId = ''ENSG1'', meshId = ''D001943'', score = 0.9, evidenceCount = 4\<rparr>,
      \<lparr>targetId = ''ENSG2'', meshId = ''D001943'', score = 0.5, evidenceCount = 1\<rparr>]) \<and>
   run_add_entrez int_of_digits True
     [\<lparr>targetId = ''ENSG1'', meshId = ''D001943'', score = 0.9, evidenceCount = 4\<rparr>,
      \<lparr>targetId = ''ENSG2'', meshId = ''D001943'', score = 0.5, evidenceCount = 1\<rparr>]
     [\<lparr>tax_id = ''9606'', GeneID = ''7157'', Ensembl_gene_identifier = ''ENSG1''\<rparr>,
      \<lparr>tax_id = ''9606'', GeneID = ''7157'', Ensembl_gene_identifier = ''ENSG2''\<rparr>]
   = Inr [\<lparr>disease_mesh_id = ''D001943'', gene_entrez_id = 7157, ot_score = 0.9, evidence_count = 4\<rparr>,
          \<lparr>disease_mesh_id = ''D001943'', gene_entrez_id = 7157, ot_score = 0.5, evidence_count = 1\<rparr>] \<and>
   \<not> distinct (map (\<lambda>f. (disease_mesh_id f, gene_entrez_id f))
     [\<lparr>disease_mesh_id = ''D001943'', gene_entrez_id = 7157, ot_score = 0.9, evidence_count = 4\<rparr>,
      \<lparr>disease_mesh_id = ''D001943'', gene_entrez_id = 7157, ot_score = 0.5, evidence_count = 1\<rparr>])"
  using run_add_entrez_shared_target_example by simp

text \<open>
  C1, amended. Whenever the remapper returns a table, the final table has no two rows
  with the same term and target gene exactly when no two rows of the gene-term table
  whose genes have an entry in the first-seen crosswalk agree on the term and on the
  target identifier of their gene. This is so in particular when the gene-term table has
  no two rows of the same term and source gene and the source genes with an entry have
  pairwise different target identifiers.
\<close>

theorem run_add_entrez_unique_iff:
  assumes run: "run_add_entrez to_int verbose df file_rows = Inr final"
  shows "(distinct (map (\<lambda>f. (disease_mesh_id f, gene_entrez_id f)) final) \<longleftrightarrow>
          distinct (map (\<lambda>r. (meshId r, target_id to_int (load_gene2ensembl file_rows HUMAN_TAX_ID) (targetId r)))
                      (filter (has_entry (load_gene2ensembl file_rows HUMAN_TAX_ID)) df))) \<and>
         (distinct (map (\<lambda>r. (meshId r, targetId r)) df) \<and>
          distinct (map (target_id to_int (load_gene2ensembl file_rows HUMAN_TAX_ID))
             (remdups (map targetId
                (filter (has_entry (load_gene2ensembl file_rows HUMAN_TAX_ID)) df)))) \<longrightarrow>
          distinct (map (\<lambda>f. (disease_mesh_id f, gene_entrez_id f)) final))"
proof -
  define em where "em = load_gene2ensembl file_rows HUMAN_TAX_ID"
  define rows where "rows = filter (has_entry em) df"
  have iff: "distinct (map (\<lambda>f. (disease_mesh_id f, gene_entrez_id f)) final) \<longleftrightarrow>
             distinct (map (\<lambda>r. (meshId r, target_id to_int em (targetId r))) rows)"
    unfolding distinct_map_Some_snd[of disease_mesh_id gene_entrez_id final, symmetric] rows_def em_def
    by (rule mset_eq_imp_distinct_iff[OF final_keys[OF run]])
  have suff: "distinct (map (\<lambda>r. (meshId r, target_id to_int em (targetId r))) rows)"
    if uniq: "distinct (map (\<lambda>r. (meshId r, targetId r)) df)"
      and inj: "distinct (map (target_id to_int em) (remdups (map targetId rows)))"
  proof -
    from inj have "inj_on (target_id to_int em) (set (remdups (map targetId rows)))"
      by (simp only: distinct_map)
    then have inj': "inj_on (target_id to_int em) (set (map targetId rows))"
      by (simp only: set_remdups)
    from uniq have d: "distinct rows" and i: "inj_on (\<lambda>r. (meshId r, targetId r)) (set rows)"
      unfolding rows_def by (auto simp: distinct_map intro: inj_on_subset)
    have "inj_on (\<lambda>r. (meshId r, target_id to_int em (targetId r))) (set rows)"
    proof (rule inj_onI)
      fix a b assume a: "a \<in> set rows" and b: "b \<in> set rows"
        and e: "(meshId a, target_id to_int em (targetId a)) =
                (meshId b, target_id to_int em (targetId b))"
      from e have "target_id to_int em (targetId a) = target_id to_int em (targetId b)"
        by simp
      with inj' a b have "targetId a = targetId b"
        by (auto dest: inj_onD)
      with e have "(meshId a, targetId a) = (meshId b, targetId b)" by simp
      with i a b show "a = b" by (auto dest: inj_onD)
    qed
    with d show ?thesis by (simp add: distinct_map)
  qed
  from iff suff show ?thesis
    unfolding rows_def em_def by blast
qed

lemma run_add_entrez_example_targets_distinct:
  "distinct (map (target_id int_of_digits (load_gene2ensembl
     [\<lparr>tax_id = ''9606'', GeneID = ''7157'', Ensembl_gene_identifier = ''ENSG1''\<rparr>,
      \<lparr>tax_id = ''10090'', GeneID = ''11'', Ensembl_gene_identifier = ''ENSG3''\<rparr>,
      \<lparr>tax_id = ''9606'', GeneID = ''672'', Ensembl_gene_identifier = ''ENSG2''\<rparr>,
      \<lparr>tax_id = ''9606'', GeneID = ''999'', Ensembl_gene_identifier = ''ENSG1''\<rparr>] HUMAN_TAX_ID))
     (remdups (map targetId (filter (has_entry (load_gene2ensembl
     [\<lparr>tax_id = ''9606'', GeneID = ''7157'', Ensembl_gene_identifier = ''ENSG1''\<rparr>,
      \<lparr>tax_id = ''10090'', GeneID = ''11'', Ensembl_gene_identifier = ''ENSG3''\<rparr>,
      \<lparr>tax_id = ''9606'', GeneID = ''672'', Ensembl_gene_identifier = ''ENSG2''\<rparr>,
      \<lparr>tax_id = ''9606'', GeneID = ''999'', Ensembl_gene_identifier = ''ENSG1''\<rparr>] HUMAN_TAX_ID))
     [\<lparr>targetId = ''ENSG2'', meshId = ''D001943'', score = 0.5, evidenceCount = 1\<rparr>,
      \<lparr>targetId = ''ENSG3'', meshId = ''D001943'', score = 0.7, evidenceCount = 2\<rparr>,
      \<lparr>targetId = ''ENSG1'', meshId = ''D001943'', score = 0.9, evidenceCount = 4\<rparr>]))))"
  by (simp add: load_gene2ensembl_def HUMAN_TAX_ID_def drop_duplicates_first_def has_entry_def
      target_id_def entrez_of_def int_of_digits_def Let_def)

theorem run_add_entrez_unique_iff_witness:
  "run_add_entrez int_of_digits True
     [\<lparr>targetId = ''ENSG2'', meshId = ''D001943'', score = 0.5, evidenceCount = 1\<rparr>,
      \<lparr>targetId = ''ENSG3'', meshId = ''D001943'', score = 0.7, evidenceCount = 2\<rparr>,
      \<lparr>targetId = ''ENSG1'', meshId = ''D001943'', score = 0.9, evidenceCount = 4\<rparr>]
     [\<lparr>tax_id = ''9606'', GeneID = ''7157'', Ensembl_gene_identifier = ''ENSG1''\<rparr>,
      \<lparr>tax_id = ''10090'', GeneID = ''11'', Ensembl_gene_identifier = ''ENSG3''\<rparr>,
      \<lparr>tax_id = ''9606'', GeneID = ''672'', Ensembl_gene_identifier = ''ENSG2''\<rparr>,
      \<lparr>tax_id = ''9606'', GeneID = ''999'', Ensembl_gene_identifier = ''ENSG1''\<rparr>]
   = Inr [\<lparr>disease_mesh_id = ''D001943'', gene_entrez_id = 7157, ot_score = 0.9, evidence_count = 4\<rparr>,
          \<lparr>disease_mesh_id = ''D001943'', gene_entrez_id = 672, ot_score = 0.5, evidence_count = 1\<rparr>] \<and>
   distinct (map (\<lambda>f. (disease_mesh_id f, gene_entrez_id f))
     [\<lparr>disease_mesh_id = ''D001943'', gene_entrez_id = 7157, ot_score = 0.9, evidence_count = 4\<rparr>,
      \<lparr>disease_mesh_id = ''D001943'', gene_entrez_id = 672, ot_score = 0.5, evidence_count = 1\<rparr>])"
proof -
  have u: "distinct (map (\<lambda>r. (meshId r, targetId r))
     [\<lparr>targetId = ''ENSG2'', meshId = ''D001943'', score = 0.5, evidenceCount = 1\<rparr>,
      \<lparr>targetId = ''ENSG3'', meshId = ''D001943'', score = 0.7, evidenceCount = 2\<rparr>,
      \<lparr>targetId = ''ENSG1'', meshId = ''D001943'', score = 0.9, evidenceCount = 4\<rparr>])"
    by simp
  from run_add_entrez_unique_iff[OF run_add_entrez_example] u
    run_add_entrez_example_targets_distinct run_add_entrez_example
  show ?thesis by blast
qed

end
